theory Spec2Isabelle
  imports Main "HOL-Library.Word"
begin

section \<open>Thrown values, errors and promise outcomes\<close>

text \<open>
  The adapter (\<^verbatim>\<open>src/index.ts\<close>) looks at a value thrown by a collaborator only
  through \<^verbatim>\<open>error?.message\<close>, so a thrown value is its optional message.
\<close>

type_synonym thrown = "string option"

text \<open>
  The error classes of \<^verbatim>\<open>@solana/wallet-adapter-base\<close> that the adapter raises, each
  with the message it was built from. \<open>Error\<close> is a plain \<^verbatim>\<open>new Error(msg)\<close>,
  \<open>Thrown\<close> a collaborator's own value passing through unwrapped, and
  \<open>RejectedWith\<close> a string handed to \<^verbatim>\<open>Promise.reject\<close>.
\<close>

datatype wallet_error =
    WalletNotReadyError
  | WalletConfigError thrown
  | WalletConnectionError thrown
  | WalletDisconnectionError thrown
  | WalletNotConnectedError "string option"
  | WalletPublicKeyError thrown
  | WalletSignInError thrown
  | WalletSignMessageError thrown
  | WalletSignTransactionError thrown
  | Error string
  | Thrown thrown
  | RejectedWith string

text \<open>
  How a promise returned by the adapter settles (\<open>outcome\<close>), and how a promise of a
  collaborator settles (\<open>settled\<close>: fulfilled with a value, or rejected with a thrown
  value).
\<close>

datatype 'a outcome = Resolved 'a | Rejected wallet_error

datatype 'a settled = Fulfilled 'a | RejectedBy thrown

section \<open>The allowlist guard\<close>

text \<open>
  A parsed JSON body. \<open>JNumber\<close> holds integral numbers; a fractional number is
  truthy like any other non-zero number.
\<close>

datatype json =
    JNull
  | JBool bool
  | JNumber int
  | JString string
  | JArray "json list"
  | JObject "(string \<times> json) list"

text \<open>JavaScript truthiness of a property read; \<open>None\<close> is \<^verbatim>\<open>undefined\<close>.\<close>

fun truthy :: "json option \<Rightarrow> bool" where
  "truthy None = False"
| "truthy (Some JNull) = False"
| "truthy (Some (JBool b)) = b"
| "truthy (Some (JNumber n)) = (n \<noteq> 0)"
| "truthy (Some (JString s)) = (s \<noteq> [])"
| "truthy (Some (JArray xs)) = True"
| "truthy (Some (JObject kvs)) = True"

text \<open>
  \<^verbatim>\<open>const { ancestor } = (await response.json())\<close>: destructuring \<^verbatim>\<open>null\<close> throws a
  TypeError, an object yields the member (the last one of a repeated key, as JSON.parse
  keeps it), any other value has no such property.
\<close>

fun destructure_ancestor :: "json \<Rightarrow> thrown + json option" where
  "destructure_ancestor JNull = Inl (Some ''Cannot destructure property 'ancestor' of null'')"
| "destructure_ancestor (JObject kvs) = Inr (map_of (rev kvs) ''ancestor'')"
| "destructure_ancestor v = Inr None"

datatype URL = URL (protocol: string) (hostname: string) (port: string)

text \<open>
  A fetch response as the guard reads it: \<^verbatim>\<open>response.ok\<close>, \<^verbatim>\<open>response.status\<close> and the
  settlement of \<^verbatim>\<open>response.json()\<close> (rejected on a body that is not JSON).
\<close>

datatype response = Response (ok: bool) (status: nat) (json_body: "thrown + json")

datatype fetch_result = FetchRejected thrown | FetchResolved response

text \<open>
  The platform functions the guard calls: the \<^verbatim>\<open>URL\<close> constructor (it throws on a
  string that is no URL), \<^verbatim>\<open>JSON.stringify\<close> of an object of string members,
  \<^verbatim>\<open>Buffer.from(data).toString("base64")\<close>, and \<^verbatim>\<open>fetch\<close> as the settlement of the
  request for a given address.
\<close>

record net =
  new_URL :: "string \<Rightarrow> thrown + URL"
  json_stringify :: "(string \<times> string) list \<Rightarrow> string"
  base64 :: "string \<Rightarrow> string"
  fetch :: "string \<Rightarrow> fetch_result"

definition sanitizeUrlForAllowList :: "net \<Rightarrow> string \<Rightarrow> thrown + string" where
  "sanitizeUrlForAllowList n urlString =
     (case new_URL n urlString of
        Inl e \<Rightarrow> Inl e
      | Inr url \<Rightarrow>
          Inr (protocol url @ ''//'' @ hostname url @
               (if port url \<noteq> [] then '':'' @ port url else [])))"

text \<open>
  \<^verbatim>\<open>checkIfAllowListed(buildEnv, clientId, url, failCallback)\<close>. The callback acts on
  the caller's state \<open>s\<close>; the result is how the returned promise settles and the state
  left behind. The function has no \<^verbatim>\<open>try\<close>: whatever \<^verbatim>\<open>new URL\<close>, \<^verbatim>\<open>fetch\<close>,
  \<^verbatim>\<open>response.json()\<close> or the destructuring throws rejects the promise.
\<close>

definition checkIfAllowListed ::
  "net \<Rightarrow> 'b \<Rightarrow> string \<Rightarrow> string \<Rightarrow> ('s \<Rightarrow> 's) \<Rightarrow> 's \<Rightarrow> unit outcome \<times> 's" where
  "checkIfAllowListed n buildEnv clientId url failCallback s =
     (case sanitizeUrlForAllowList n url of
        Inl e \<Rightarrow> (Rejected (Thrown e), s)
      | Inr referrerUrl \<Rightarrow>
          (let data = json_stringify n [(''clientId'', clientId), (''referrerUrl'', referrerUrl)];
               b64Referrer = base64 n data;
               configUrl = ''http://localhost:3000/api/wallet_adapter_ancestors/'' @ b64Referrer
           in case fetch n configUrl of
                FetchRejected e \<Rightarrow> (Rejected (Thrown e), s)
              | FetchResolved response \<Rightarrow>
                  (case json_body response of
                     Inl e \<Rightarrow> (Rejected (Thrown e), s)
                   | Inr v \<Rightarrow>
                       (case destructure_ancestor v of
                          Inl e \<Rightarrow> (Rejected (Thrown e), s)
                        | Inr ancestor \<Rightarrow>
                            if ok response \<and> status response = 200 \<and> truthy ancestor
                            then (Resolved (), s)
                            else (Resolved (), failCallback s)))))"

section \<open>The environment detector\<close>

text \<open>
  The detector tests the user agent against regular expressions. The expressions of
  \<^verbatim>\<open>src/index.ts\<close> use literals, \<^verbatim>\<open>.\<close> and \<^verbatim>\<open>\d\<close> under \<^verbatim>\<open>*\<close> and \<^verbatim>\<open>+\<close>,
  sequence, alternation and one negative lookahead; capture groups do not change
  whether a string matches. \<open>rests r s\<close> lists what can remain of \<open>s\<close> after a match of
  \<open>r\<close> at its start, \<open>rx_test\<close> is \<^verbatim>\<open>RegExp.prototype.test\<close> (a match somewhere), and
  \<open>rx_test_i\<close> the same under the \<^verbatim>\<open>i\<close> flag. A character is a byte; user agents are
  ASCII, where the case folding of the \<^verbatim>\<open>i\<close> flag is that of the letters A to Z.
\<close>

datatype cls = AnyChar | Digit

fun in_cls :: "cls \<Rightarrow> char \<Rightarrow> bool" where
  "in_cls AnyChar c = (c \<noteq> CHR 0x0A \<and> c \<noteq> CHR 0x0D)"
| "in_cls Digit c = (c \<in> set ''0123456789'')"

datatype rx =
    Lit string
  | Star cls
  | Plus cls
  | Cat rx rx
  | Alt rx rx
  | NotAhead rx

fun star_rests :: "cls \<Rightarrow> string \<Rightarrow> string list" where
  "star_rests k [] = [[]]"
| "star_rests k (c # s) = (c # s) # (if in_cls k c then star_rests k s else [])"

fun rests :: "rx \<Rightarrow> string \<Rightarrow> string list" where
  "rests (Lit w) s = (if take (length w) s = w then [drop (length w) s] else [])"
| "rests (Star k) s = star_rests k s"
| "rests (Plus k) s = (case s of [] \<Rightarrow> [] | c # t \<Rightarrow> if in_cls k c then star_rests k t else [])"
| "rests (Cat a b) s = concat (map (rests b) (rests a s))"
| "rests (Alt a b) s = rests a s @ rests b s"
| "rests (NotAhead a) s = (if rests a s = [] then [s] else [])"

fun rx_test :: "rx \<Rightarrow> string \<Rightarrow> bool" where
  "rx_test r [] = (rests r [] \<noteq> [])"
| "rx_test r (c # s) = (rests r (c # s) \<noteq> [] \<or> rx_test r s)"

definition to_lower :: "char \<Rightarrow> char" where
  "to_lower c =
     (case map_of (zip ''ABCDEFGHIJKLMNOPQRSTUVWXYZ'' ''abcdefghijklmnopqrstuvwxyz'') c of
        None \<Rightarrow> c | Some l \<Rightarrow> l)"

fun fold_case :: "rx \<Rightarrow> rx" where
  "fold_case (Lit w) = Lit (map to_lower w)"
| "fold_case (Cat a b) = Cat (fold_case a) (fold_case b)"
| "fold_case (Alt a b) = Alt (fold_case a) (fold_case b)"
| "fold_case (NotAhead a) = NotAhead (fold_case a)"
| "fold_case r = r"

definition rx_test_i :: "rx \<Rightarrow> string \<Rightarrow> bool" where
  "rx_test_i r s = rx_test (fold_case r) (map to_lower s)"

text \<open>
  The two long expressions of the source:
  \<^verbatim>\<open>/(WebView|Version\/.+(Chrome)\/(\d+)\.(\d+)\.(\d+)\.(\d+)|; wv\).+(Chrome)\/(\d+)\.(\d+)\.(\d+)\.(\d+))/i\<close>
  in \<^verbatim>\<open>isWebView\<close> (\<open>chrome_version\<close> is the part it repeats), and \<^verbatim>\<open>wvRegex\<close>, built
  from \<^verbatim>\<open>["WebView", "(iPhone|iPod|iPad)(?!.*Safari/)", "Android.*(wv)"]\<close> with the
  flags \<^verbatim>\<open>ig\<close>. The short ones, \<^verbatim>\<open>/android/i\<close> and \<^verbatim>\<open>/iPad|iPhone|iPod/\<close>, stand
  where they are used.
\<close>

definition chrome_version :: rx where
  "chrome_version =
     Cat (Lit ''Chrome/'') (Cat (Plus Digit) (Cat (Lit ''.'') (Cat (Plus Digit)
       (Cat (Lit ''.'') (Cat (Plus Digit) (Cat (Lit ''.'') (Plus Digit)))))))"

definition webview_rx :: rx where
  "webview_rx =
     Alt (Lit ''WebView'')
       (Alt (Cat (Lit ''Version/'') (Cat (Plus AnyChar) chrome_version))
            (Cat (Lit ''; wv)'') (Cat (Plus AnyChar) chrome_version)))"

definition wvRegex :: rx where
  "wvRegex =
     Alt (Lit ''WebView'')
       (Alt (Cat (Alt (Lit ''iPhone'') (Alt (Lit ''iPod'') (Lit ''iPad'')))
                 (NotAhead (Cat (Star AnyChar) (Lit ''Safari/''))))
            (Cat (Lit ''Android'') (Cat (Star AnyChar) (Lit ''wv''))))"

section \<open>The data of the adapter\<close>

text \<open>
  The embedded session channel (\<^verbatim>\<open>HyperLinkEmbed\<close>, whose source is not part of
  \<^verbatim>\<open>src/\<close>) is an object the adapter holds by reference: a \<open>wallet_id\<close> names one
  such object. Transactions, messages and sign-in payloads are forwarded unread.
  \<open>InputFunction\<close> is a sign-in input given as a function: calling it throws, or
  returns the promise of a payload.
\<close>

type_synonym wallet_id = nat
type_synonym bytes = "8 word list"

datatype transaction = Transaction bytes | VersionedTransaction bytes

datatype SolanaSignInInput =
  SolanaSignInInput (si_domain: string) (si_statement: string) (si_nonce: string)

datatype SolanaSignInOutput =
  SolanaSignInOutput (so_account: string) (so_signedMessage: bytes) (so_signature: bytes)

datatype CustomSolanaSignInInput =
    InputValue SolanaSignInInput
  | InputFunction "thrown + SolanaSignInInput"

datatype ConnectOutput = ConnectOutput (siwsOutput: "SolanaSignInOutput option")

datatype WalletReadyState = Installed | NotDetected | Loadable | Unsupported

datatype HyperLinkWalletAdapterTheme = System | Light | Dark

datatype WalletAdapterNetwork = Mainnet | Devnet

record WalletAdapterConfig =
  clientId :: string
  title :: string
  theme :: HyperLinkWalletAdapterTheme
  installedOnDesktop :: "bool option"
  installedOnIos :: "bool option"
  installedOnAndroid :: "bool option"
  hideDraggableWidget :: "bool option"
  hideWalletOnboard :: "bool option"
  walletAdapterNetwork :: "WalletAdapterNetwork option"

text \<open>
  The options \<^verbatim>\<open>_connect\<close> passes to \<^verbatim>\<open>wallet.init\<close>, the calls the adapter makes
  on a channel, its other calls into the page (\<^verbatim>\<open>removePreviousWindowRef\<close>,
  \<^verbatim>\<open>showDialog\<close>), and the events it emits to its listeners.
\<close>

record init_options =
  directConnect :: bool
  autoConnect :: bool
  siwsInput :: "CustomSolanaSignInInput option"
  forceClickToContinue :: bool
  init_theme :: HyperLinkWalletAdapterTheme
  init_hideDraggableWidget :: bool
  init_hideWalletOnboard :: bool

datatype channel_call =
    Construct
  | Init init_options
  | On_accountChanged
  | Off_accountChanged
  | CleanUp
  | ClearElements
  | NotifyDisallowed
  | Call_signTransaction transaction
  | Call_signAllTransactions "transaction list"
  | Call_signMessage bytes
  | Call_sendTransaction transaction
  | Call_signIn "SolanaSignInInput option"

datatype effect =
    Channel wallet_id channel_call
  | RemovePreviousWindowRef
  | ShowDialog

datatype 'k event = Connect 'k | Disconnect | ErrorEvent wallet_error

text \<open>
  What one synchronous stretch of the adapter finds around it. \<open>userAgent\<close> is
  \<^verbatim>\<open>globalThis.navigator?.userAgent\<close> (\<open>None\<close> when there is none); \<open>hasWindow\<close> and
  \<open>hasDocument\<close> are the \<^verbatim>\<open>typeof ... !== "undefined"\<close> tests; \<open>standalone\<close> is what
  \<^verbatim>\<open>isPWA\<close> reads. \<open>new_PublicKey\<close> and \<open>toBase58\<close> are the \<^verbatim>\<open>PublicKey\<close> class of
  \<^verbatim>\<open>@solana/web3.js\<close>, with keys of any type \<open>'k\<close>: the constructor throws on a
  string that is no key. The remaining fields say whether a synchronous call into a
  collaborator throws: the constructor of the channel, \<^verbatim>\<open>clearElements\<close>,
  \<^verbatim>\<open>removePreviousWindowRef\<close>, \<^verbatim>\<open>wallet.sendTransaction\<close>, and the two accesses to
  storage, \<^verbatim>\<open>localStorage.getItem\<close> and \<^verbatim>\<open>localStorage.setItem\<close> (a ReferenceError
  where there is no \<^verbatim>\<open>localStorage\<close>, a SecurityError or a quota error where the
  browser refuses).
\<close>

record 'k env =
  userAgent :: "string option"
  hasWindow :: bool
  hasDocument :: bool
  referrer :: string
  standalone :: bool
  new_PublicKey :: "string \<Rightarrow> thrown + 'k"
  toBase58 :: "'k \<Rightarrow> string"
  new_HyperLinkEmbed :: "thrown option"
  clearElements :: "thrown option"
  removePreviousWindowRef :: "thrown option"
  sendTransaction_throws :: "thrown option"
  getItem_throws :: "thrown option"
  setItem_throws :: "thrown option"

text \<open>
  The private fields of \<^verbatim>\<open>HyperLinkWalletAdapter\<close> (\<^verbatim>\<open>_connecting\<close> is
  \<open>p_connecting\<close>, and so on), followed by what the adapter reads and writes outside
  itself: the page's \<^verbatim>\<open>localStorage\<close>, the names of the query parameters of the page
  address, the \<^verbatim>\<open>isLoggedIn\<close> flag of every channel object (set by the channel, read
  by the adapter), the next unused channel name, and the events emitted and calls made
  so far, oldest first. Fields that no method below reads are left out (the session
  and instance identifiers, and the two methods captured by \<^verbatim>\<open>onWalletHandshake\<close>);
  writes to the console are not effects.
\<close>

record 'k adapter =
  p_connecting :: bool
  p_disconnected :: bool
  p_wallet :: "wallet_id option"
  p_publicKey :: "'k option"
  p_directConnect :: bool
  p_title :: string
  p_theme :: HyperLinkWalletAdapterTheme
  p_clientId :: string
  p_isDisallowed :: bool
  p_installedOnDesktop :: bool
  p_installedOnAndroid :: bool
  p_installedOnIos :: bool
  p_forceIframe :: bool
  p_hideDraggableWidget :: bool
  p_hideWalletOnboard :: bool
  p_walletAdapterNetwork :: WalletAdapterNetwork
  localStorage :: "string \<rightharpoonup> string"
  urlParams :: "string list"
  isLoggedIn :: "wallet_id \<Rightarrow> bool"
  next_wallet :: wallet_id
  events :: "'k event list"
  effects :: "effect list"

definition emit :: "'k event \<Rightarrow> 'k adapter \<Rightarrow> 'k adapter" where
  "emit e a = a\<lparr>events := events a @ [e]\<rparr>"

definition perform :: "effect \<Rightarrow> 'k adapter \<Rightarrow> 'k adapter" where
  "perform x a = a\<lparr>effects := effects a @ [x]\<rparr>"

section \<open>Environment classification\<close>

text \<open>
  The source memoises the user agent and two of the classifications in module
  variables. The user agent of a page does not change, so the memoised functions are
  the functions of the user agent written here. A missing or empty user agent makes
  every classification false.
\<close>

definition getUserAgent :: "'k env \<Rightarrow> string option" where
  "getUserAgent env = userAgent env"

definition truthy_string :: "string option \<Rightarrow> bool" where
  "truthy_string v = (case v of None \<Rightarrow> False | Some s \<Rightarrow> s \<noteq> [])"

definition isPWA :: "'k env \<Rightarrow> bool" where
  "isPWA env = standalone env"

definition isWebView :: "'k env \<Rightarrow> bool" where
  "isWebView env =
     (case getUserAgent env of
        None \<Rightarrow> False
      | Some userAgentString \<Rightarrow>
          if userAgentString = [] then False else rx_test_i webview_rx userAgentString)"

definition isMobileAndroid :: "'k env \<Rightarrow> bool" where
  "isMobileAndroid env =
     (case getUserAgent env of
        None \<Rightarrow> False
      | Some userAgentString \<Rightarrow>
          userAgentString \<noteq> [] \<and> rx_test_i (Lit ''android'') userAgentString \<and> \<not> isWebView env)"

definition isMobileiOS :: "'k env \<Rightarrow> bool" where
  "isMobileiOS env =
     (case getUserAgent env of
        None \<Rightarrow> False
      | Some userAgentString \<Rightarrow>
          userAgentString \<noteq> [] \<and>
          rx_test (Alt (Lit ''iPad'') (Alt (Lit ''iPhone'') (Lit ''iPod''))) userAgentString \<and>
          \<not> isWebView env)"

definition isInApp :: "'k env \<Rightarrow> bool" where
  "isInApp env =
     (case getUserAgent env of
        None \<Rightarrow> False
      | Some userAgentString \<Rightarrow>
          if userAgentString = [] then False else rx_test_i wvRegex userAgentString)"

definition isPhantomBrowser :: "'k env \<Rightarrow> bool" where
  "isPhantomBrowser env =
     (case getUserAgent env of
        None \<Rightarrow> False
      | Some userAgentString \<Rightarrow>
          if userAgentString = [] then False
          else rx_test (Lit ''Phantom'') userAgentString \<and> isInApp env)"

section \<open>Getters and the account-change handler\<close>

definition installedToWalletReadyState :: "bool \<Rightarrow> WalletReadyState" where
  "installedToWalletReadyState installed = (if installed then Installed else Loadable)"

definition connected :: "'k adapter \<Rightarrow> bool" where
  "connected a = (case p_wallet a of None \<Rightarrow> False | Some w \<Rightarrow> isLoggedIn a w)"

definition readyState :: "'k env \<Rightarrow> 'k adapter \<Rightarrow> WalletReadyState" where
  "readyState env a =
     (let isAndroid = isMobileAndroid env;
          isiOS = isMobileiOS env;
          isPhantom = isPhantomBrowser env;
          isInstalled =
            (if isPhantom then False
             else if isAndroid then p_installedOnAndroid a
             else if isiOS then p_installedOnIos a
             else p_installedOnDesktop a)
      in if \<not> (hasWindow env \<and> hasDocument env) then Unsupported
         else installedToWalletReadyState isInstalled)"

text \<open>The handler \<^verbatim>\<open>_accountChanged\<close>, subscribed to the channel after a handshake.\<close>

definition accountChanged :: "'k env \<Rightarrow> string \<Rightarrow> 'k adapter \<Rightarrow> 'k adapter" where
  "accountChanged env newPublicKeyString a =
     (case p_publicKey a of
        None \<Rightarrow> a
      | Some publicKey \<Rightarrow>
          if toBase58 env publicKey = newPublicKeyString then a
          else (case new_PublicKey env newPublicKeyString of
                  Inl e \<Rightarrow> emit (ErrorEvent (WalletPublicKeyError e)) a
                | Inr newPublicKey \<Rightarrow>
                    emit (Connect newPublicKey) (a\<lparr>p_publicKey := Some newPublicKey\<rparr>)))"

definition removeQueryParam :: "string \<Rightarrow> 'k adapter \<Rightarrow> 'k adapter" where
  "removeQueryParam key a =
     (if key \<in> set (urlParams a) then a\<lparr>urlParams := filter (\<lambda>k. k \<noteq> key) (urlParams a)\<rparr> else a)"

section \<open>disconnect\<close>

text \<open>
  An \<^verbatim>\<open>async\<close> method runs synchronously up to its first \<^verbatim>\<open>await\<close> on a promise of
  the channel and continues when that promise settles; other calls can run in between.
  Each method is therefore a function for the stretch up to the \<^verbatim>\<open>await\<close>, which
  returns either the settled result or what the method waits for, and a function for
  the continuation, which takes the settlement and the state found then.

  \<^verbatim>\<open>disconnect()\<close> waits only for \<^verbatim>\<open>wallet.cleanUp()\<close>. \<open>disconnect_finish\<close> is the
  rest of the \<^verbatim>\<open>try\<close> block after the teardown call and the final \<^verbatim>\<open>emit\<close>;
  \<open>disconnect\<close> is a whole run, \<open>r\<close> being the settlement of \<^verbatim>\<open>cleanUp\<close> if it is
  awaited. Listeners and \<^verbatim>\<open>wallet.off\<close> are taken not to throw.
\<close>

datatype disconnect_status = DisconnectDone "unit outcome" | AwaitCleanUp wallet_id

definition disconnect_finish :: "'k env \<Rightarrow> 'k adapter \<Rightarrow> 'k adapter" where
  "disconnect_finish env a =
     (let a1 = perform RemovePreviousWindowRef a
      in case removePreviousWindowRef env of
           Some e \<Rightarrow> emit Disconnect (emit (ErrorEvent (WalletDisconnectionError e)) a1)
         | None \<Rightarrow> emit Disconnect a1)"

definition disconnect_begin :: "'k env \<Rightarrow> 'k adapter \<Rightarrow> disconnect_status \<times> 'k adapter" where
  "disconnect_begin env a =
     (let wallet = p_wallet a;
          a1 = a\<lparr>p_connecting := False, p_disconnected := True\<rparr>
      in case wallet of
           None \<Rightarrow> (DisconnectDone (Resolved ()), emit Disconnect a1)
         | Some w \<Rightarrow>
             (let a2 = perform (Channel w Off_accountChanged)
                         (a1\<lparr>p_wallet := None, p_publicKey := None\<rparr>)
              in if isLoggedIn a2 w then (AwaitCleanUp w, perform (Channel w CleanUp) a2)
                 else (let a3 = perform (Channel w ClearElements) a2
                       in case clearElements env of
                            Some e \<Rightarrow>
                              (DisconnectDone (Resolved ()),
                               emit Disconnect (emit (ErrorEvent (WalletDisconnectionError e)) a3))
                          | None \<Rightarrow> (DisconnectDone (Resolved ()), disconnect_finish env a3))))"

definition disconnect_end ::
  "unit settled \<Rightarrow> 'k env \<Rightarrow> 'k adapter \<Rightarrow> unit outcome \<times> 'k adapter" where
  "disconnect_end r env a =
     (case r of
        RejectedBy e \<Rightarrow>
          (Resolved (), emit Disconnect (emit (ErrorEvent (WalletDisconnectionError e)) a))
      | Fulfilled u \<Rightarrow> (Resolved (), disconnect_finish env a))"

definition disconnect ::
  "unit settled \<Rightarrow> 'k env \<Rightarrow> 'k adapter \<Rightarrow> unit outcome \<times> 'k adapter" where
  "disconnect r env a =
     (case disconnect_begin env a of
        (DisconnectDone out, a1) \<Rightarrow> (out, a1)
      | (AwaitCleanUp w, a1) \<Rightarrow> disconnect_end r env a1)"

text \<open>
  The value the teardown of a whole run of \<^verbatim>\<open>disconnect()\<close> throws inside its
  \<^verbatim>\<open>try\<close> block, if any: with no channel there is no teardown; a logged-in channel
  is torn down by \<^verbatim>\<open>cleanUp\<close> (settling as \<open>r\<close>), any other by \<^verbatim>\<open>clearElements\<close>, and
  \<^verbatim>\<open>removePreviousWindowRef\<close> follows a teardown that did not throw.
\<close>

definition teardown_failure :: "unit settled \<Rightarrow> 'k env \<Rightarrow> 'k adapter \<Rightarrow> thrown option" where
  "teardown_failure r env a =
     (case p_wallet a of
        None \<Rightarrow> None
      | Some w \<Rightarrow>
          if isLoggedIn a w
          then (case r of RejectedBy e \<Rightarrow> Some e | Fulfilled u \<Rightarrow> removePreviousWindowRef env)
          else (case clearElements env of Some e \<Rightarrow> Some e | None \<Rightarrow> removePreviousWindowRef env))"

text \<open>The accounts of the \<^verbatim>\<open>connect\<close> events in a list of events, in order.\<close>

fun connect_keys :: "'k event list \<Rightarrow> 'k list" where
  "connect_keys [] = []"
| "connect_keys (Connect k # es) = k # connect_keys es"
| "connect_keys (e # es) = connect_keys es"

section \<open>connect\<close>

text \<open>
  \<^verbatim>\<open>_connect\<close> waits for \<^verbatim>\<open>wallet.init\<close> and, in the handler of a failed handshake,
  for \<^verbatim>\<open>this.disconnect()\<close>. \<open>pending_connect\<close> holds the locals that live across
  the first wait. \<open>connect_failed\<close> is the outer \<^verbatim>\<open>catch\<close> followed by
  \<^verbatim>\<open>finally\<close>. Where \<^verbatim>\<open>this.disconnect()\<close> is called without \<^verbatim>\<open>await\<close> its
  synchronous stretch runs in place; if it then waits for \<^verbatim>\<open>cleanUp\<close>, the
  \<open>CleanUp\<close> call is in \<open>effects\<close> and \<open>disconnect_end\<close> is its continuation.
  An \<^verbatim>\<open>await\<close> on a \<^verbatim>\<open>disconnect()\<close> that had nothing to wait for continues in
  place. \<^verbatim>\<open>localStorage.getItem\<close> is called before the \<^verbatim>\<open>try\<close>: what it throws
  rejects the call as it is, with no event and nothing written;
  \<^verbatim>\<open>localStorage.setItem\<close> is called inside it. \<^verbatim>\<open>showDialog\<close> and the rewriting of
  the page address are taken not to throw.
\<close>

record connect_args =
  forceNoDirectConnect :: "bool option"
  arg_siwsInput :: "CustomSolanaSignInInput option"
  arg_autoConnect :: "bool option"

record pending_connect =
  pc_wallet :: wallet_id
  pc_previouslyConnectedPublicKey :: "string option"

datatype connect_status =
    ConnectDone "ConnectOutput option outcome"
  | AwaitInit pending_connect
  | AwaitDisconnect thrown

definition connect_failed :: "wallet_error \<Rightarrow> 'k adapter \<Rightarrow> connect_status \<times> 'k adapter" where
  "connect_failed err a =
     (ConnectDone (Rejected err), (emit (ErrorEvent err) a)\<lparr>p_connecting := False\<rparr>)"

definition connect_begin ::
  "connect_args \<Rightarrow> 'k env \<Rightarrow> 'k adapter \<Rightarrow> connect_status \<times> 'k adapter" where
  "connect_begin args env a =
     (if isInApp env then
        (ConnectDone (Rejected (RejectedWith ''The HyperLink Wallet is not supported in this browser.'')),
         perform ShowDialog (snd (disconnect_begin env a)))
      else if connected a \<or> p_connecting a then (ConnectDone (Resolved None), a)
      else case getItem_throws env of
        Some e \<Rightarrow> (ConnectDone (Rejected (Thrown e)), a)
      | None \<Rightarrow>
        (let previouslyConnectedPublicKey = localStorage a ''hyperLink_pk_connected'';
             downgrade = (truthy_string previouslyConnectedPublicKey \<or> p_forceIframe a);
             forceNoDirectConnect' =
               (if downgrade then True else forceNoDirectConnect args = Some True);
             autoConnect' =
               (if downgrade then True
                else (case arg_autoConnect args of None \<Rightarrow> False | Some b \<Rightarrow> b));
             a1 = a\<lparr>p_disconnected := False\<rparr>
         in if readyState env a1 \<noteq> Installed \<and> readyState env a1 \<noteq> Loadable
            then connect_failed WalletNotReadyError a1
            else
              (let a2 = a1\<lparr>p_connecting := True\<rparr>
               in case new_HyperLinkEmbed env of
                    Some e \<Rightarrow> connect_failed (WalletConfigError e) a2
                  | None \<Rightarrow>
                      (let w = next_wallet a2;
                           a3 = (perform (Channel w Construct) a2)
                                  \<lparr>next_wallet := Suc w, p_wallet := Some w\<rparr>;
                           options =
                             \<lparr> directConnect =
                                 (if forceNoDirectConnect' then False else p_directConnect a3),
                               autoConnect = autoConnect',
                               siwsInput = arg_siwsInput args,
                               forceClickToContinue = p_forceIframe a3,
                               init_theme = p_theme a3,
                               init_hideDraggableWidget = p_hideDraggableWidget a3,
                               init_hideWalletOnboard = p_hideWalletOnboard a3 \<rparr>
                       in (AwaitInit \<lparr> pc_wallet = w,
                                       pc_previouslyConnectedPublicKey =
                                         previouslyConnectedPublicKey \<rparr>,
                           perform (Channel w (Init options)) a3)))))"

definition connect_resume ::
  "(string \<times> SolanaSignInOutput option) settled \<Rightarrow> pending_connect \<Rightarrow> 'k env \<Rightarrow> 'k adapter
     \<Rightarrow> connect_status \<times> 'k adapter" where
  "connect_resume r k env a =
     (case (case r of
              RejectedBy e \<Rightarrow> Inl e
            | Fulfilled (pk, siwsOutput') \<Rightarrow>
                (case new_PublicKey env pk of
                   Inl e \<Rightarrow> Inl e
                 | Inr publicKey \<Rightarrow> Inr (publicKey, siwsOutput'))) of
        Inl e \<Rightarrow>
          (case disconnect_begin env a of
             (DisconnectDone out, a1) \<Rightarrow> connect_failed (WalletConnectionError e) a1
           | (AwaitCleanUp w, a1) \<Rightarrow> (AwaitDisconnect e, a1))
      | Inr (publicKey, solanaSignInOutput) \<Rightarrow>
          if p_disconnected a then (ConnectDone (Resolved None), a\<lparr>p_connecting := False\<rparr>)
          else if truthy_string (pc_previouslyConnectedPublicKey k) \<and>
                  pc_previouslyConnectedPublicKey k \<noteq> Some (toBase58 env publicKey)
          then (ConnectDone (Resolved None),
                (snd (disconnect_begin env a))\<lparr>p_connecting := False\<rparr>)
          else
            (let a1 = removeQueryParam ''promptHyperLinkAutoConnect''
                        (removeQueryParam ''hyperLinkAutoConnectPublicKey''
                          (removeQueryParam ''hyperLinkAutoConnect'' a));
                 a2 = perform (Channel (pc_wallet k) On_accountChanged) a1;
                 a3 = a2\<lparr>p_publicKey := Some publicKey\<rparr>
             in case setItem_throws env of
                  Some e \<Rightarrow> connect_failed (Thrown e) a3
                | None \<Rightarrow>
                    (let a4 = a3\<lparr>localStorage :=
                               (localStorage a3)(''hyperLink_pk_connected'' \<mapsto>
                                                 toBase58 env publicKey)\<rparr>;
                         a5 = emit (Connect publicKey) a4
                     in (ConnectDone (Resolved (Some (ConnectOutput solanaSignInOutput))),
                         a5\<lparr>p_connecting := False\<rparr>))))"

definition connect_resume_disconnect ::
  "unit settled \<Rightarrow> thrown \<Rightarrow> 'k env \<Rightarrow> 'k adapter \<Rightarrow> connect_status \<times> 'k adapter" where
  "connect_resume_disconnect r e env a =
     connect_failed (WalletConnectionError e) (snd (disconnect_end r env a))"

text \<open>
  \<^verbatim>\<open>connect()\<close> and \<^verbatim>\<open>autoConnect()\<close> call \<^verbatim>\<open>_connect\<close> with fixed arguments and
  drop its result. \<open>connect_calls\<close> issues a list of such calls one after the other,
  none of the handshakes settling in between.
\<close>

datatype connect_request = ConnectCall | AutoConnectCall

fun request_args :: "connect_request \<Rightarrow> connect_args" where
  "request_args ConnectCall =
     \<lparr> forceNoDirectConnect = None, arg_siwsInput = None, arg_autoConnect = None \<rparr>"
| "request_args AutoConnectCall =
     \<lparr> forceNoDirectConnect = Some True, arg_siwsInput = None, arg_autoConnect = Some True \<rparr>"

fun connect_calls ::
  "connect_request list \<Rightarrow> 'k env \<Rightarrow> 'k adapter \<Rightarrow> connect_status list \<times> 'k adapter" where
  "connect_calls [] env a = ([], a)"
| "connect_calls (c # cs) env a =
     (case connect_begin (request_args c) env a of
        (st, a1) \<Rightarrow> (case connect_calls cs env a1 of (sts, a2) \<Rightarrow> (st # sts, a2)))"

section \<open>Signing and sending\<close>

text \<open>
  Each method calls the channel once and waits for it; \<open>raise\<close> is the outer
  \<^verbatim>\<open>catch\<close>, which emits the error and rethrows it. \<^verbatim>\<open>sendTransaction\<close> returns the
  promise of the channel without awaiting it, so its \<^verbatim>\<open>catch\<close> sees only what the
  call throws synchronously.
\<close>

datatype 'a call_status = Done "'a outcome" | AwaitChannel wallet_id

definition raise :: "wallet_error \<Rightarrow> 'k adapter \<Rightarrow> 'a call_status \<times> 'k adapter" where
  "raise err a = (Done (Rejected err), emit (ErrorEvent err) a)"

definition signTransaction_begin ::
  "transaction \<Rightarrow> 'k adapter \<Rightarrow> transaction call_status \<times> 'k adapter" where
  "signTransaction_begin transaction a =
     (case p_wallet a of
        None \<Rightarrow> raise (WalletNotConnectedError None) a
      | Some wallet \<Rightarrow>
          if \<not> connected a then raise (WalletNotConnectedError None) a
          else (AwaitChannel wallet, perform (Channel wallet (Call_signTransaction transaction)) a))"

definition signTransaction_end ::
  "transaction \<Rightarrow> transaction option settled \<Rightarrow> 'k adapter \<Rightarrow> transaction call_status \<times> 'k adapter" where
  "signTransaction_end transaction r a =
     (case r of
        RejectedBy e \<Rightarrow> raise (WalletSignTransactionError e) a
      | Fulfilled None \<Rightarrow> (Done (Resolved transaction), a)
      | Fulfilled (Some signedTx) \<Rightarrow> (Done (Resolved signedTx), a))"

definition signAllTransactions_begin ::
  "transaction list \<Rightarrow> 'k adapter \<Rightarrow> transaction list call_status \<times> 'k adapter" where
  "signAllTransactions_begin transactions a =
     (case p_wallet a of
        None \<Rightarrow> raise (WalletNotConnectedError None) a
      | Some wallet \<Rightarrow>
          if \<not> connected a then raise (WalletNotConnectedError None) a
          else (AwaitChannel wallet,
                perform (Channel wallet (Call_signAllTransactions transactions)) a))"

definition signAllTransactions_end ::
  "transaction list \<Rightarrow> transaction list option settled \<Rightarrow> 'k adapter
     \<Rightarrow> transaction list call_status \<times> 'k adapter" where
  "signAllTransactions_end transactions r a =
     (case r of
        RejectedBy e \<Rightarrow> raise (WalletSignTransactionError e) a
      | Fulfilled None \<Rightarrow> (Done (Resolved transactions), a)
      | Fulfilled (Some signedTx) \<Rightarrow> (Done (Resolved signedTx), a))"

definition signMessage_begin :: "bytes \<Rightarrow> 'k adapter \<Rightarrow> bytes call_status \<times> 'k adapter" where
  "signMessage_begin message a =
     (case p_wallet a of
        None \<Rightarrow> raise (WalletNotConnectedError None) a
      | Some wallet \<Rightarrow>
          if \<not> connected a then raise (WalletNotConnectedError None) a
          else (AwaitChannel wallet, perform (Channel wallet (Call_signMessage message)) a))"

definition signMessage_end :: "bytes settled \<Rightarrow> 'k adapter \<Rightarrow> bytes call_status \<times> 'k adapter" where
  "signMessage_end r a =
     (case r of
        RejectedBy e \<Rightarrow> raise (WalletSignMessageError e) a
      | Fulfilled signature \<Rightarrow> (Done (Resolved signature), a))"

definition sendTransaction_begin ::
  "transaction \<Rightarrow> 'k env \<Rightarrow> 'k adapter \<Rightarrow> string call_status \<times> 'k adapter" where
  "sendTransaction_begin transaction env a =
     (case p_wallet a of
        None \<Rightarrow> raise (WalletNotConnectedError None) a
      | Some wallet \<Rightarrow>
          if \<not> connected a then raise (WalletNotConnectedError None) a
          else (let a1 = perform (Channel wallet (Call_sendTransaction transaction)) a
                in case sendTransaction_throws env of
                     Some e \<Rightarrow> raise (Thrown e) a1
                   | None \<Rightarrow> (AwaitChannel wallet, a1)))"

definition sendTransaction_end :: "string settled \<Rightarrow> 'k adapter \<Rightarrow> string call_status \<times> 'k adapter" where
  "sendTransaction_end r a =
     (case r of
        RejectedBy e \<Rightarrow> (Done (Rejected (Thrown e)), a)
      | Fulfilled signature \<Rightarrow> (Done (Resolved signature), a))"

section \<open>signIn\<close>

text \<open>
  \<^verbatim>\<open>signIn\<close> first runs \<^verbatim>\<open>_connect\<close> when \<^verbatim>\<open>this.connected\<close> is false
  (\<open>signIn_after_connect\<close> is what follows that call), then calls
  \<^verbatim>\<open>wallet.signIn\<close> (\<open>signIn_direct\<close>).
\<close>

datatype signIn_status =
    SignInDone "SolanaSignInOutput outcome"
  | SignInAwaitInit pending_connect
  | SignInAwaitDisconnect thrown
  | SignInAwaitChannel wallet_id

definition signIn_failed :: "wallet_error \<Rightarrow> 'k adapter \<Rightarrow> signIn_status \<times> 'k adapter" where
  "signIn_failed err a = (SignInDone (Rejected err), emit (ErrorEvent err) a)"

text \<open>
  \<^verbatim>\<open>typeof input === "function" ? input() : input ? Promise.resolve(input) : undefined\<close>:
  the argument handed to \<^verbatim>\<open>wallet.signIn\<close>, or the value the input function throws.
\<close>

definition resolve_siwsInput ::
  "CustomSolanaSignInInput option \<Rightarrow> thrown + SolanaSignInInput option" where
  "resolve_siwsInput input =
     (case input of
        None \<Rightarrow> Inr None
      | Some (InputValue v) \<Rightarrow> Inr (Some v)
      | Some (InputFunction (Inr v)) \<Rightarrow> Inr (Some v)
      | Some (InputFunction (Inl e)) \<Rightarrow> Inl e)"

definition signIn_direct ::
  "CustomSolanaSignInInput option \<Rightarrow> 'k adapter \<Rightarrow> signIn_status \<times> 'k adapter" where
  "signIn_direct input a =
     (case p_wallet a of
        None \<Rightarrow> signIn_failed (WalletNotConnectedError None) a
      | Some wallet \<Rightarrow>
          if \<not> connected a then signIn_failed (WalletNotConnectedError None) a
          else (case p_publicKey a of
                  None \<Rightarrow> signIn_failed (WalletNotConnectedError (Some ''no public key found'')) a
                | Some publicKey \<Rightarrow>
                    (case resolve_siwsInput input of
                       Inl e \<Rightarrow> signIn_failed (WalletSignInError e) a
                     | Inr siwsInput' \<Rightarrow>
                         (SignInAwaitChannel wallet,
                          perform (Channel wallet (Call_signIn siwsInput')) a))))"

definition signIn_after_connect ::
  "CustomSolanaSignInInput option \<Rightarrow> connect_status \<times> 'k adapter \<Rightarrow> signIn_status \<times> 'k adapter" where
  "signIn_after_connect input r =
     (case r of
        (AwaitInit k, a) \<Rightarrow> (SignInAwaitInit k, a)
      | (AwaitDisconnect e, a) \<Rightarrow> (SignInAwaitDisconnect e, a)
      | (ConnectDone (Rejected err), a) \<Rightarrow> signIn_failed err a
      | (ConnectDone (Resolved output), a) \<Rightarrow>
          (let siwsOutput' = (case output of None \<Rightarrow> None | Some out \<Rightarrow> siwsOutput out)
           in case input of
                Some i \<Rightarrow>
                  (case siwsOutput' of
                     None \<Rightarrow> signIn_failed (Error ''No Solana Sign In Output'') a
                   | Some so \<Rightarrow> (SignInDone (Resolved so), a))
              | None \<Rightarrow> signIn_direct input a))"

definition signIn_begin ::
  "CustomSolanaSignInInput option \<Rightarrow> 'k env \<Rightarrow> 'k adapter \<Rightarrow> signIn_status \<times> 'k adapter" where
  "signIn_begin input env a =
     (if \<not> connected a then
        signIn_after_connect input
          (connect_begin \<lparr> forceNoDirectConnect = None, arg_siwsInput = input,
                           arg_autoConnect = None \<rparr> env a)
      else signIn_direct input a)"

definition signIn_resume_init ::
  "(string \<times> SolanaSignInOutput option) settled \<Rightarrow> pending_connect \<Rightarrow>
     CustomSolanaSignInInput option \<Rightarrow> 'k env \<Rightarrow> 'k adapter \<Rightarrow> signIn_status \<times> 'k adapter" where
  "signIn_resume_init r k input env a = signIn_after_connect input (connect_resume r k env a)"

definition signIn_resume_disconnect ::
  "unit settled \<Rightarrow> thrown \<Rightarrow> CustomSolanaSignInInput option \<Rightarrow> 'k env \<Rightarrow> 'k adapter
     \<Rightarrow> signIn_status \<times> 'k adapter" where
  "signIn_resume_disconnect r e input env a =
     signIn_after_connect input (connect_resume_disconnect r e env a)"

definition signIn_end :: "SolanaSignInOutput settled \<Rightarrow> 'k adapter \<Rightarrow> signIn_status \<times> 'k adapter" where
  "signIn_end r a =
     (case r of
        RejectedBy e \<Rightarrow> signIn_failed (WalletSignInError e) a
      | Fulfilled so \<Rightarrow> (SignInDone (Resolved so), a))"

section \<open>Construction\<close>

text \<open>
  \<open>disallowed\<close> is the callback the constructor hands to \<^verbatim>\<open>checkIfAllowListed\<close>.
  The constructor itself is given the page's storage and query parameters.
\<close>

definition disallowed :: "'k env \<Rightarrow> 'k adapter \<Rightarrow> 'k adapter" where
  "disallowed env a =
     (let a1 = a\<lparr>p_isDisallowed := True\<rparr>;
          a2 = (case p_wallet a1 of
                  None \<Rightarrow> a1
                | Some w \<Rightarrow> perform (Channel w NotifyDisallowed) a1)
      in snd (disconnect_begin env a2))"

definition new_HyperLinkWalletAdapter ::
  "WalletAdapterConfig \<Rightarrow> 'k env \<Rightarrow> (string \<rightharpoonup> string) \<Rightarrow> string list \<Rightarrow> 'k adapter" where
  "new_HyperLinkWalletAdapter config env storage params =
     \<lparr> p_connecting = False,
       p_disconnected = False,
       p_wallet = None,
       p_publicKey = None,
       p_directConnect = True,
       p_title = title config,
       p_theme = theme config,
       p_clientId = clientId config,
       p_isDisallowed = False,
       p_installedOnDesktop = (case installedOnDesktop config of None \<Rightarrow> True | Some b \<Rightarrow> b),
       p_installedOnAndroid = (case installedOnAndroid config of None \<Rightarrow> False | Some b \<Rightarrow> b),
       p_installedOnIos = (case installedOnIos config of None \<Rightarrow> True | Some b \<Rightarrow> b),
       p_forceIframe =
         ((hasDocument env \<and> referrer env = ''https://t.co/'' \<and> userAgent env \<noteq> None \<and>
           isMobileiOS env) \<or> isPWA env),
       p_hideDraggableWidget = (case hideDraggableWidget config of None \<Rightarrow> False | Some b \<Rightarrow> b),
       p_hideWalletOnboard = (case hideWalletOnboard config of None \<Rightarrow> False | Some b \<Rightarrow> b),
       p_walletAdapterNetwork =
         (case walletAdapterNetwork config of None \<Rightarrow> Mainnet | Some n \<Rightarrow> n),
       localStorage = storage,
       urlParams = params,
       isLoggedIn = (\<lambda>w. False),
       next_wallet = 0,
       events = [],
       effects = [] \<rparr>"

section \<open>Fixtures\<close>

text \<open>
  A stand-in for \<^verbatim>\<open>new PublicKey(text)\<close>: it accepts base58 text that decodes to 32
  bytes (as many zero bytes as leading \<^verbatim>\<open>1\<close>s, then the bytes of the number) and
  throws otherwise. Decoding is injective, so a key is represented by its text and
  \<^verbatim>\<open>toBase58\<close> returns it.
\<close>

definition base58_alphabet :: string where
  "base58_alphabet = ''123456789ABCDEFGHJKLMNPQRSTUVWXYZabcdefghijkmnopqrstuvwxyz''"

fun index_of :: "'a \<Rightarrow> 'a list \<Rightarrow> nat option" where
  "index_of x [] = None"
| "index_of x (y # ys) = (if x = y then Some 0 else map_option Suc (index_of x ys))"

fun base58_value :: "nat \<Rightarrow> string \<Rightarrow> nat option" where
  "base58_value acc [] = Some acc"
| "base58_value acc (c # s) =
     (case index_of c base58_alphabet of
        None \<Rightarrow> None
      | Some d \<Rightarrow> base58_value (acc * 58 + d) s)"

function byte_length :: "nat \<Rightarrow> nat" where
  "byte_length n = (if n = 0 then 0 else Suc (byte_length (n div 256)))"
  by pat_completeness auto
termination
  by (relation "measure id") auto

definition web3_PublicKey :: "string \<Rightarrow> thrown + string" where
  "web3_PublicKey s =
     (case base58_value 0 s of
        None \<Rightarrow> Inl (Some ''Non-base58 character'')
      | Some v \<Rightarrow>
          if length (takeWhile (\<lambda>c. c = CHR ''1'') s) + byte_length v = 32 then Inr s
          else Inl (Some ''Invalid public key input''))"

text \<open>User agents: desktop Chrome, Chrome on Android, and an Android WebView.\<close>

definition ua_desktop :: string where
  "ua_desktop = ''Mozilla/5.0 (X11; Linux x86_64) AppleWebKit/537.36 (KHTML, like Gecko) Chrome/116.0.0.0 Safari/537.36''"

definition ua_android :: string where
  "ua_android = ''Mozilla/5.0 (Linux; Android 13; Pixel 7) AppleWebKit/537.36 (KHTML, like Gecko) Chrome/116.0.0.0 Mobile Safari/537.36''"
definition ua_android_wv :: string where
  "ua_android_wv = ''Mozilla/5.0 (Linux; Android 13; Pixel 7 Build/TQ3A.230805.001; wv) AppleWebKit/537.36 (KHTML, like Gecko) Version/4.0 Chrome/116.0.5845.163 Mobile Safari/537.36''"

text \<open>A browser page with the user agent \<open>ua\<close>, where no collaborator throws.\<close>

definition page_env :: "string \<Rightarrow> string env" where
  "page_env ua =
     \<lparr> userAgent = Some ua, hasWindow = True, hasDocument = True, referrer = [],
       standalone = False, new_PublicKey = web3_PublicKey, toBase58 = (\<lambda>k. k),
       new_HyperLinkEmbed = None, clearElements = None, removePreviousWindowRef = None,
       sendTransaction_throws = None, getItem_throws = None, setItem_throws = None \<rparr>"

definition ADDR_A :: string where "ADDR_A = ''11111111111111111111111111111111''"
definition ADDR_B :: string where "ADDR_B = ''So11111111111111111111111111111111111111112''"

text \<open>
  A page at \<^verbatim>\<open>https://dapp.example\<close> whose request to the allowlist endpoint settles as
  \<open>r\<close>. The two encoders are stand-ins: the guard only forwards their result.
\<close>

definition page_net :: "fetch_result \<Rightarrow> net" where
  "page_net r =
     \<lparr> new_URL = (\<lambda>u. if u = ''https://dapp.example''
                       then Inr (URL ''https:'' ''dapp.example'' [])
                       else Inl (Some ''Invalid URL'')),
       json_stringify = (\<lambda>kvs. concat (map (\<lambda>(k, v). k @ ''='' @ v @ '';'') kvs)),
       base64 = (\<lambda>d. d),
       fetch = (\<lambda>u. r) \<rparr>"

text \<open>
  An application configured with the defaults (installed on desktop and iOS, not on
  Android), on a desktop browser. \<open>idle\<close> is the adapter just constructed on a page with
  nothing persisted, \<open>returning\<close> the same on a page where \<open>ADDR_A\<close> was persisted by an
  earlier visit, \<open>pending\<close> the adapter after \<^verbatim>\<open>connect()\<close> has started its handshake,
  and \<open>signed_in\<close> the adapter after that handshake returned \<open>ADDR_A\<close> and the channel
  reports a logged-in session.
\<close>

definition demo_config :: WalletAdapterConfig where
  "demo_config =
     \<lparr> clientId = ''client-1'', title = ''Example dApp'', theme = System,
       installedOnDesktop = None, installedOnIos = None, installedOnAndroid = None,
       hideDraggableWidget = None, hideWalletOnboard = None, walletAdapterNetwork = None \<rparr>"

definition desktop :: "string env" where
  "desktop = page_env ua_desktop"

definition idle :: "string adapter" where
  "idle = new_HyperLinkWalletAdapter demo_config desktop Map.empty []"

definition returning :: "string adapter" where
  "returning =
     new_HyperLinkWalletAdapter demo_config desktop [''hyperLink_pk_connected'' \<mapsto> ADDR_A] []"

definition pending :: "string adapter" where
  "pending = snd (connect_begin (request_args ConnectCall) desktop idle)"

definition signed_in :: "string adapter" where
  "signed_in =
     (snd (connect_resume (Fulfilled (ADDR_A, None))
            \<lparr> pc_wallet = 0, pc_previouslyConnectedPublicKey = None \<rparr> desktop pending))
       \<lparr>isLoggedIn := (\<lambda>w. w = 0)\<rparr>"

text \<open>
  \<open>torn_down\<close> is \<open>pending\<close> after \<^verbatim>\<open>disconnect()\<close>, \<open>reconnecting\<close> is \<open>torn_down\<close> after a
  second \<^verbatim>\<open>connect()\<close> has started its own handshake, and \<open>early_login\<close> is \<open>pending\<close>
  once the channel reports a logged-in session while its handshake is still awaited.
\<close>

definition torn_down :: "string adapter" where
  "torn_down = snd (disconnect_begin desktop pending)"

definition reconnecting :: "string adapter" where
  "reconnecting = snd (connect_begin (request_args ConnectCall) desktop torn_down)"

definition early_login :: "string adapter" where
  "early_login = pending\<lparr>isLoggedIn := (\<lambda>w. True)\<rparr>"

definition demo_payload :: SolanaSignInInput where
  "demo_payload = SolanaSignInInput ''dapp.example'' ''Sign in to Example dApp'' ''8f2a91c0''"

definition demo_proof :: SolanaSignInOutput where
  "demo_proof = SolanaSignInOutput ADDR_A [1, 2, 3] [4, 5, 6]"

text \<open>
  \<open>signing_in\<close> is \<open>idle\<close> after \<^verbatim>\<open>signIn\<close> with \<open>demo_payload\<close> has started its handshake.
\<close>

definition signing_in :: "string adapter" where
  "signing_in = snd (signIn_begin (Some (InputValue demo_payload)) desktop idle)"

definition demo_options :: init_options where
  "demo_options = \<lparr> directConnect = True, autoConnect = False, siwsInput = None,
       forceClickToContinue = False, init_theme = System, init_hideDraggableWidget = False,
       init_hideWalletOnboard = False \<rparr>"


section \<open>Properties of the allowlist guard\<close>

lemma sanitize_page_net:
  "sanitizeUrlForAllowList (page_net r) ''https://dapp.example'' = Inr ''https://dapp.example''"
  by (simp add: sanitizeUrlForAllowList_def page_net_def)

text \<open>
  C1 (as amended). Whenever the round-trip completes, that is the page address is a
  URL, the request is answered and the body is JSON other than \<^verbatim>\<open>null\<close>, the promise
  is fulfilled; the callback has run exactly once unless the response is ok with
  status 200 and a truthy \<open>ancestor\<close>, in which case it has not run at all.
\<close>

theorem checkIfAllowListed_completed:
  assumes "sanitizeUrlForAllowList n url = Inr referrerUrl"
    and "fetch n (''http://localhost:3000/api/wallet_adapter_ancestors/'' @
           base64 n (json_stringify n [(''clientId'', client), (''referrerUrl'', referrerUrl)]))
         = FetchResolved resp"
    and "json_body resp = Inr v"
    and "destructure_ancestor v = Inr ancestor"
  shows "checkIfAllowListed n buildEnv client url failCallback s =
           (Resolved (),
            if ok resp \<and> status resp = 200 \<and> truthy ancestor then s else failCallback s)"
  using assms by (simp add: checkIfAllowListed_def)

theorem checkIfAllowListed_completed_witness:
  "checkIfAllowListed (page_net (FetchResolved (Response False 403
        (Inr (JObject [(''ancestor'', JString ''https://dapp.example'')])))))
      () ''client-1'' ''https://dapp.example'' Suc (0::nat) = (Resolved (), 1)
   \<and> checkIfAllowListed (page_net (FetchResolved (Response True 200
        (Inr (JObject [(''ancestor'', JString [])])))))
      () ''client-1'' ''https://dapp.example'' Suc (0::nat) = (Resolved (), 1)
   \<and> checkIfAllowListed (page_net (FetchResolved (Response True 200
        (Inr (JObject [(''ancestor'', JString ''https://dapp.example'')])))))
      () ''client-1'' ''https://dapp.example'' Suc (0::nat) = (Resolved (), 0)"
proof -
  let ?u = "''https://dapp.example''"
  have a: "checkIfAllowListed (page_net (FetchResolved (Response False 403
        (Inr (JObject [(''ancestor'', JString ?u)]))))) () ''client-1'' ?u Suc (0::nat)
      = (Resolved (), 1)"
    using checkIfAllowListed_completed
      [of "page_net (FetchResolved (Response False 403 (Inr (JObject [(''ancestor'', JString ?u)]))))"
          ?u ?u "''client-1''" "Response False 403 (Inr (JObject [(''ancestor'', JString ?u)]))"
          "JObject [(''ancestor'', JString ?u)]" "Some (JString ?u)" "()" Suc 0]
    by (simp add: sanitize_page_net) (simp add: page_net_def)
  have b: "checkIfAllowListed (page_net (FetchResolved (Response True 200
        (Inr (JObject [(''ancestor'', JString [])]))))) () ''client-1'' ?u Suc (0::nat)
      = (Resolved (), 1)"
    using checkIfAllowListed_completed
      [of "page_net (FetchResolved (Response True 200 (Inr (JObject [(''ancestor'', JString [])]))))"
          ?u ?u "''client-1''" "Response True 200 (Inr (JObject [(''ancestor'', JString [])]))"
          "JObject [(''ancestor'', JString [])]" "Some (JString [])" "()" Suc 0]
    by (simp add: sanitize_page_net) (simp add: page_net_def)
  have c: "checkIfAllowListed (page_net (FetchResolved (Response True 200
        (Inr (JObject [(''ancestor'', JString ?u)]))))) () ''client-1'' ?u Suc (0::nat)
      = (Resolved (), 0)"
    using checkIfAllowListed_completed
      [of "page_net (FetchResolved (Response True 200 (Inr (JObject [(''ancestor'', JString ?u)]))))"
          ?u ?u "''client-1''" "Response True 200 (Inr (JObject [(''ancestor'', JString ?u)]))"
          "JObject [(''ancestor'', JString ?u)]" "Some (JString ?u)" "()" Suc 0]
    by (simp add: sanitize_page_net) (simp add: page_net_def)
  from a b c show ?thesis by simp
qed

text \<open>
  C1 as stated fails on a network failure: the rejection of \<^verbatim>\<open>fetch\<close> is not caught,
  the promise of the guard rejects and the callback has not run.
\<close>

theorem checkIfAllowListed_network_failure_counterexample:
  "checkIfAllowListed (page_net (FetchRejected (Some ''Failed to fetch'')))
      () ''client-1'' ''https://dapp.example'' Suc (0::nat)
   = (Rejected (Thrown (Some ''Failed to fetch'')), 0)"
  by (simp add: checkIfAllowListed_def sanitize_page_net) (simp add: page_net_def)

section \<open>Basic facts about the state\<close>

lemma emit_simps [simp]:
  "events (emit e a) = events a @ [e]"
  "effects (emit e a) = effects a"
  "p_connecting (emit e a) = p_connecting a"
  "p_disconnected (emit e a) = p_disconnected a"
  "p_wallet (emit e a) = p_wallet a"
  "p_publicKey (emit e a) = p_publicKey a"
  "localStorage (emit e a) = localStorage a"
  "isLoggedIn (emit e a) = isLoggedIn a"
  by (simp_all add: emit_def)

lemma perform_simps [simp]:
  "events (perform x a) = events a"
  "effects (perform x a) = effects a @ [x]"
  "p_connecting (perform x a) = p_connecting a"
  "p_disconnected (perform x a) = p_disconnected a"
  "p_wallet (perform x a) = p_wallet a"
  "p_publicKey (perform x a) = p_publicKey a"
  "localStorage (perform x a) = localStorage a"
  "isLoggedIn (perform x a) = isLoggedIn a"
  by (simp_all add: perform_def)

lemma connect_keys_append [simp]:
  "connect_keys (xs @ ys) = connect_keys xs @ connect_keys ys"
  by (induction xs rule: connect_keys.induct) simp_all

lemma connected_no_wallet: "p_wallet a = None \<Longrightarrow> \<not> connected a"
  by (simp add: connected_def)

section \<open>Facts about the fixtures\<close>

lemma page_env_fields:
  "userAgent (page_env ua) = Some ua"
  "hasWindow (page_env ua)"
  "hasDocument (page_env ua)"
  "new_PublicKey (page_env ua) = web3_PublicKey"
  "toBase58 (page_env ua) k = k"
  "new_HyperLinkEmbed (page_env ua) = None"
  "clearElements (page_env ua) = None"
  "removePreviousWindowRef (page_env ua) = None"
  "sendTransaction_throws (page_env ua) = None"
  "getItem_throws (page_env ua) = None"
  "setItem_throws (page_env ua) = None"
  "standalone (page_env ua) = False"
  "referrer (page_env ua) = []"
  by (simp_all add: page_env_def)

lemma desktop_class:
  "\<not> isInApp desktop" "\<not> isPhantomBrowser desktop" "\<not> isMobileAndroid desktop"
  "\<not> isMobileiOS desktop" "\<not> isWebView desktop"
  by code_simp+

lemma android_class:
  "isMobileAndroid (page_env ua_android)" "\<not> isPhantomBrowser (page_env ua_android)"
  by code_simp+

lemma desktop_fields:
  "hasWindow desktop" "hasDocument desktop" "new_PublicKey desktop = web3_PublicKey"
  "toBase58 desktop k = k" "new_HyperLinkEmbed desktop = None" "clearElements desktop = None"
  "removePreviousWindowRef desktop = None" "sendTransaction_throws desktop = None"
  "getItem_throws desktop = None" "setItem_throws desktop = None"
  "\<not> isPWA desktop" "referrer desktop = []"
  by (simp_all add: desktop_def page_env_fields isPWA_def)

lemma web3_keys:
  "web3_PublicKey ADDR_A = Inr ADDR_A"
  "web3_PublicKey ADDR_B = Inr ADDR_B"
  "web3_PublicKey ''not-a-key'' = Inl (Some ''Non-base58 character'')"
  "ADDR_A \<noteq> ADDR_B" "ADDR_A \<noteq> ''not-a-key''" "ADDR_A \<noteq> []" "ADDR_B \<noteq> []"
  by (simp_all add: web3_PublicKey_def ADDR_A_def ADDR_B_def base58_alphabet_def)

lemma idle_eq:
  "idle = \<lparr> p_connecting = False, p_disconnected = False, p_wallet = None, p_publicKey = None,
       p_directConnect = True, p_title = ''Example dApp'', p_theme = System,
       p_clientId = ''client-1'', p_isDisallowed = False, p_installedOnDesktop = True,
       p_installedOnAndroid = False, p_installedOnIos = True, p_forceIframe = False,
       p_hideDraggableWidget = False, p_hideWalletOnboard = False,
       p_walletAdapterNetwork = Mainnet, localStorage = Map.empty, urlParams = [],
       isLoggedIn = (\<lambda>w. False), next_wallet = 0, events = [], effects = [] \<rparr>"
  by (simp add: idle_def new_HyperLinkWalletAdapter_def demo_config_def desktop_fields desktop_class)

lemma returning_eq:
  "returning = idle\<lparr>localStorage := [''hyperLink_pk_connected'' \<mapsto> ADDR_A]\<rparr>"
  by (simp add: idle_eq returning_def new_HyperLinkWalletAdapter_def demo_config_def desktop_fields desktop_class)

lemma idle_connect:
  "connect_begin (request_args ConnectCall) desktop idle =
     (AwaitInit \<lparr> pc_wallet = 0, pc_previouslyConnectedPublicKey = None \<rparr>,
      idle\<lparr>p_connecting := True, p_wallet := Some 0, next_wallet := 1,
           effects := [Channel 0 Construct, Channel 0 (Init demo_options)]\<rparr>)"
  by (simp add: connect_begin_def desktop_class desktop_fields connected_def idle_eq Let_def
      truthy_string_def readyState_def installedToWalletReadyState_def perform_def demo_options_def)

lemma pending_eq:
  "pending = idle\<lparr>p_connecting := True, p_wallet := Some 0, next_wallet := 1,
           effects := [Channel 0 Construct, Channel 0 (Init demo_options)]\<rparr>"
  unfolding pending_def idle_connect by simp

lemma signed_in_eq:
  "signed_in = idle\<lparr>p_wallet := Some 0, p_publicKey := Some ADDR_A,
       localStorage := [''hyperLink_pk_connected'' \<mapsto> ADDR_A], isLoggedIn := (\<lambda>w. w = 0),
       next_wallet := 1, events := [Connect ADDR_A],
       effects := [Channel 0 Construct, Channel 0 (Init demo_options), Channel 0 On_accountChanged]\<rparr>"
  by (simp add: signed_in_def pending_eq connect_resume_def desktop_fields web3_keys idle_eq
      truthy_string_def removeQueryParam_def Let_def perform_def emit_def)


section \<open>Properties of disconnect\<close>

lemma disconnect_begin_fields:
  "p_connecting (snd (disconnect_begin env a)) = False"
  "p_disconnected (snd (disconnect_begin env a)) = True"
  "p_wallet (snd (disconnect_begin env a)) = None"
  "p_wallet a \<noteq> None \<Longrightarrow> p_publicKey (snd (disconnect_begin env a)) = None"
  "p_wallet a = None \<Longrightarrow> p_publicKey (snd (disconnect_begin env a)) = p_publicKey a"
  "localStorage (snd (disconnect_begin env a)) = localStorage a"
  "isLoggedIn (snd (disconnect_begin env a)) = isLoggedIn a"
  "connect_keys (events (snd (disconnect_begin env a))) = connect_keys (events a)"
  by (auto simp: disconnect_begin_def disconnect_finish_def Let_def split: option.splits)

lemma disconnect_end_fields:
  "fst (disconnect_end r env a) = Resolved ()"
  "p_connecting (snd (disconnect_end r env a)) = p_connecting a"
  "p_disconnected (snd (disconnect_end r env a)) = p_disconnected a"
  "p_wallet (snd (disconnect_end r env a)) = p_wallet a"
  "p_publicKey (snd (disconnect_end r env a)) = p_publicKey a"
  "localStorage (snd (disconnect_end r env a)) = localStorage a"
  "isLoggedIn (snd (disconnect_end r env a)) = isLoggedIn a"
  "connect_keys (events (snd (disconnect_end r env a))) = connect_keys (events a)"
  by (auto simp: disconnect_end_def disconnect_finish_def Let_def split: option.splits settled.splits)

lemma disconnect_fields:
  "fst (disconnect r env a) = Resolved ()"
  "p_connecting (snd (disconnect r env a)) = False"
  "p_disconnected (snd (disconnect r env a)) = True"
  "p_wallet (snd (disconnect r env a)) = None"
  "p_wallet a \<noteq> None \<Longrightarrow> p_publicKey (snd (disconnect r env a)) = None"
  by (auto simp: disconnect_def disconnect_begin_def disconnect_end_def disconnect_finish_def Let_def
      split: option.splits settled.splits)

lemma disconnect_events:
  "events (snd (disconnect r env a)) =
     events a @
     (case teardown_failure r env a of
        None \<Rightarrow> []
      | Some e \<Rightarrow> [ErrorEvent (WalletDisconnectionError e)]) @ [Disconnect]"
  by (auto simp: disconnect_def disconnect_begin_def disconnect_end_def disconnect_finish_def Let_def
      teardown_failure_def split: option.splits settled.splits)

lemma disconnect_no_channel:
  "p_wallet a = None \<Longrightarrow>
   disconnect r env a =
     (Resolved (), a\<lparr>p_connecting := False, p_disconnected := True,
                      events := events a @ [Disconnect]\<rparr>)"
  by (simp add: disconnect_def disconnect_begin_def emit_def)

text \<open>
  C5. Every run of \<^verbatim>\<open>disconnect()\<close> fulfils its promise and ends by emitting
  \<open>Disconnect\<close>; if the teardown threw, the one event before it is the
  \<open>WalletDisconnectionError\<close> built from what was thrown, and nothing else is emitted.
  Already after the synchronous stretch (\<open>disconnect_begin\<close>, which ends when
  \<^verbatim>\<open>cleanUp\<close> is awaited) the adapter is not connecting, is marked disconnected and
  holds no channel, and where it held one its public key is released; the finished run
  leaves it so. A second run right after (any teardown answers \<open>r'\<close>, \<open>env'\<close>) only
  adds one more \<open>Disconnect\<close>, and so does a run on an adapter that holds no channel.
\<close>

theorem disconnect_idempotent:
  "fst (disconnect r env a) = Resolved ()
   \<and> events (snd (disconnect r env a)) =
       events a @
       (case teardown_failure r env a of
          None \<Rightarrow> []
        | Some e \<Rightarrow> [ErrorEvent (WalletDisconnectionError e)]) @ [Disconnect]
   \<and> (let a1 = snd (disconnect_begin env a)
      in \<not> p_connecting a1 \<and> p_disconnected a1 \<and> p_wallet a1 = None \<and>
         (p_wallet a \<noteq> None \<longrightarrow> p_publicKey a1 = None))
   \<and> (let a2 = snd (disconnect r env a)
      in \<not> p_connecting a2 \<and> p_disconnected a2 \<and> p_wallet a2 = None \<and> \<not> connected a2 \<and>
         (p_wallet a \<noteq> None \<longrightarrow> p_publicKey a2 = None) \<and>
         disconnect r' env' a2 = (Resolved (), a2\<lparr>events := events a2 @ [Disconnect]\<rparr>))
   \<and> (p_wallet a = None \<longrightarrow>
        disconnect r env a =
          (Resolved (), a\<lparr>p_connecting := False, p_disconnected := True,
                           events := events a @ [Disconnect]\<rparr>))"
proof -
  let ?a2 = "snd (disconnect r env a)"
  have w: "p_wallet ?a2 = None" and c: "p_connecting ?a2 = False" and d: "p_disconnected ?a2 = True"
    by (simp_all add: disconnect_fields)
  have again: "disconnect r' env' ?a2 = (Resolved (), ?a2\<lparr>events := events ?a2 @ [Disconnect]\<rparr>)"
    using disconnect_no_channel [OF w, of r' env'] c d by simp
  show ?thesis
    using again
    by (simp add: Let_def disconnect_fields disconnect_begin_fields disconnect_events
        disconnect_no_channel connected_no_wallet)
qed

theorem disconnect_idempotent_witness:
  "events (snd (disconnect (RejectedBy (Some ''channel closed'')) desktop signed_in)) =
     [Connect ADDR_A, ErrorEvent (WalletDisconnectionError (Some ''channel closed'')), Disconnect]
   \<and> fst (disconnect (RejectedBy (Some ''channel closed'')) desktop signed_in) = Resolved ()
   \<and> p_publicKey (snd (disconnect (RejectedBy (Some ''channel closed'')) desktop signed_in)) = None
   \<and> p_publicKey (snd (disconnect_begin desktop signed_in)) = None
   \<and> events (snd (disconnect (Fulfilled ()) desktop
                (snd (disconnect (RejectedBy (Some ''channel closed'')) desktop signed_in)))) =
     [Connect ADDR_A, ErrorEvent (WalletDisconnectionError (Some ''channel closed'')), Disconnect,
      Disconnect]
   \<and> disconnect (Fulfilled ()) desktop idle =
       (Resolved (), idle\<lparr>p_connecting := False, p_disconnected := True,
                           events := events idle @ [Disconnect]\<rparr>)"
proof -
  let ?r = "RejectedBy (Some ''channel closed'')"
  let ?a2 = "snd (disconnect ?r desktop signed_in)"
  have w: "p_wallet signed_in \<noteq> None" by (simp add: signed_in_eq)
  have n: "p_wallet idle = None" by (simp add: idle_eq)
  have tf: "teardown_failure ?r desktop signed_in = Some (Some ''channel closed'')"
    by (simp add: teardown_failure_def signed_in_eq)
  have ev: "events signed_in = [Connect ADDR_A]" by (simp add: signed_in_eq)
  note t = disconnect_idempotent [of ?r desktop signed_in "Fulfilled ()" desktop]
  from t tf ev have e2: "events ?a2 =
     [Connect ADDR_A, ErrorEvent (WalletDisconnectionError (Some ''channel closed'')), Disconnect]"
    by simp
  from t have f: "fst (disconnect ?r desktop signed_in) = Resolved ()" by blast
  from t w have p2: "p_publicKey ?a2 = None" and p1: "p_publicKey (snd (disconnect_begin desktop signed_in)) = None"
    by (simp_all add: Let_def)
  from t have again: "disconnect (Fulfilled ()) desktop ?a2 = (Resolved (), ?a2\<lparr>events := events ?a2 @ [Disconnect]\<rparr>)"
    by (simp add: Let_def)
  from disconnect_idempotent [of "Fulfilled ()" desktop idle] n
  have i: "disconnect (Fulfilled ()) desktop idle =
       (Resolved (), idle\<lparr>p_connecting := False, p_disconnected := True,
                           events := events idle @ [Disconnect]\<rparr>)"
    by blast
  from e2 f p2 p1 again i show ?thesis by simp
qed

section \<open>Properties of connect\<close>

lemma connect_begin_noop:
  "\<not> isInApp env \<Longrightarrow> connected a \<or> p_connecting a \<Longrightarrow>
   connect_begin args env a = (ConnectDone (Resolved None), a)"
  by (auto simp: connect_begin_def)

text \<open>
  C3. Outside an in-app browser, while the adapter is connected or its connecting flag
  is set, every \<^verbatim>\<open>connect()\<close> and \<^verbatim>\<open>autoConnect()\<close> of any sequence of such calls
  resolves at once with \<^verbatim>\<open>undefined\<close> and leaves the whole state as it was: no
  channel is constructed and no \<^verbatim>\<open>init\<close> is called, so the handshake in flight stays
  the only one.
\<close>

theorem connect_reentrancy:
  assumes "\<not> isInApp env" and "connected a \<or> p_connecting a"
  shows "connect_calls cs env a = (replicate (length cs) (ConnectDone (Resolved None)), a)"
proof (induction cs)
  case Nil
  show ?case by simp
next
  case (Cons c cs)
  have "connect_begin (request_args c) env a = (ConnectDone (Resolved None), a)"
    using assms by (rule connect_begin_noop)
  with Cons.IH show ?case by simp
qed

theorem connect_reentrancy_witness:
  "\<not> isInApp desktop \<and> p_connecting pending
   \<and> connect_calls [ConnectCall, AutoConnectCall, ConnectCall] desktop pending =
       ([ConnectDone (Resolved None), ConnectDone (Resolved None), ConnectDone (Resolved None)],
        pending)"
proof -
  have h1: "\<not> isInApp desktop" by (rule desktop_class(1))
  have c: "p_connecting pending" by (simp add: pending_eq)
  then have h2: "connected pending \<or> p_connecting pending" ..
  have "replicate (length [ConnectCall, AutoConnectCall, ConnectCall]) (ConnectDone (Resolved None))
        = [ConnectDone (Resolved None), ConnectDone (Resolved None), ConnectDone (Resolved None)]"
    by (simp add: numeral_3_eq_3)
  with connect_reentrancy [OF h1 h2, of "[ConnectCall, AutoConnectCall, ConnectCall]"] h1 c
  show ?thesis by (simp only:) simp
qed

lemma connect_resume_after_disconnect:
  assumes "p_disconnected b" and "p_wallet b = None" and "\<not> p_connecting b"
  shows "p_publicKey (snd (connect_resume (Fulfilled (pk, so)) k env b)) = p_publicKey b"
    and "localStorage (snd (connect_resume (Fulfilled (pk, so)) k env b)) = localStorage b"
    and "effects (snd (connect_resume (Fulfilled (pk, so)) k env b)) = effects b"
    and "connect_keys (events (snd (connect_resume (Fulfilled (pk, so)) k env b)))
           = connect_keys (events b)"
    and "p_disconnected (snd (connect_resume (Fulfilled (pk, so)) k env b))"
    and "\<not> p_connecting (snd (connect_resume (Fulfilled (pk, so)) k env b))"
    and "p_wallet (snd (connect_resume (Fulfilled (pk, so)) k env b)) = None"
    and "new_PublicKey env pk = Inr publicKey \<Longrightarrow>
           connect_resume (Fulfilled (pk, so)) k env b = (ConnectDone (Resolved None), b)"
  using assms
  by (auto simp: connect_resume_def disconnect_begin_def connect_failed_def split: sum.splits)

lemma disconnect_begin_flag:
  "disconnect_begin env a = (st, a1) \<Longrightarrow> p_disconnected a1"
  using disconnect_begin_fields(2) [of env a] by simp

lemma disconnected_flag_kept:
  "p_disconnected (accountChanged env s a) = p_disconnected a"
  "p_disconnected (snd (signTransaction_begin transaction a)) = p_disconnected a"
  "p_disconnected (snd (signAllTransactions_begin transactions a)) = p_disconnected a"
  "p_disconnected (snd (signMessage_begin message a)) = p_disconnected a"
  "p_disconnected (snd (sendTransaction_begin transaction env a)) = p_disconnected a"
  "p_disconnected (snd (signIn_direct input a)) = p_disconnected a"
  "p_disconnected (snd (disconnect_begin env a))"
  "p_disconnected (snd (disconnect_end r env a)) = p_disconnected a"
  "p_disconnected a \<Longrightarrow> p_disconnected (snd (connect_resume h k env a))"
  "p_disconnected a \<Longrightarrow> isInApp env \<or> connected a \<or> p_connecting a \<or> getItem_throws env \<noteq> None
     \<Longrightarrow> p_disconnected (snd (connect_begin args env a))"
  by (auto simp: accountChanged_def signTransaction_begin_def signAllTransactions_begin_def
      signMessage_begin_def sendTransaction_begin_def signIn_direct_def signIn_failed_def raise_def
      disconnect_begin_fields disconnect_end_fields connect_resume_def connect_begin_def
      connect_failed_def emit_def perform_def Let_def removeQueryParam_def
      dest: disconnect_begin_flag
      split: option.splits sum.splits settled.splits prod.splits disconnect_status.splits)

text \<open>
  C4 (as amended). Let the handshake be fulfilled with a valid account in any state
  \<open>b\<close> whose \<^verbatim>\<open>_disconnected\<close> flag is set. Then \<^verbatim>\<open>_connect\<close> resolves with
  \<^verbatim>\<open>undefined\<close> and the state is \<open>b\<close> with the connecting flag cleared: no public key
  set, nothing persisted, no subscription, no \<open>Connect\<close>. \<^verbatim>\<open>disconnect()\<close> sets that
  flag, in its synchronous stretch and for the whole run. In the very state
  \<^verbatim>\<open>disconnect()\<close> leaves (while the teardown is awaited, or after the run) the
  continuation, whatever account the handshake returns, leaves public key, storage and
  channel calls alone, emits no \<open>Connect\<close> and leaves the adapter disconnected; with a
  valid account the state is exactly the one \<^verbatim>\<open>disconnect()\<close> left.
\<close>

theorem stale_handshake_discarded:
  "(p_disconnected b \<and> new_PublicKey env pk = Inr publicKey \<longrightarrow>
      connect_resume (Fulfilled (pk, so)) k env b =
        (ConnectDone (Resolved None), b\<lparr>p_connecting := False\<rparr>))
   \<and> p_disconnected (snd (disconnect_begin env1 a))
   \<and> p_disconnected (snd (disconnect r env1 a))
   \<and> (let a1 = snd (disconnect_begin env1 a);
          a2 = snd (connect_resume (Fulfilled (pk, so)) k env a1)
      in p_publicKey a2 = p_publicKey a1 \<and> localStorage a2 = localStorage a1
       \<and> effects a2 = effects a1 \<and> connect_keys (events a2) = connect_keys (events a1)
       \<and> p_disconnected a2 \<and> \<not> p_connecting a2 \<and> p_wallet a2 = None \<and> \<not> connected a2
       \<and> (p_wallet a \<noteq> None \<longrightarrow> p_publicKey a2 = None)
       \<and> (\<forall>publicKey. new_PublicKey env pk = Inr publicKey \<longrightarrow>
             connect_resume (Fulfilled (pk, so)) k env a1 = (ConnectDone (Resolved None), a1)))
   \<and> (let a1 = snd (disconnect r env1 a);
          a2 = snd (connect_resume (Fulfilled (pk, so)) k env a1)
      in p_publicKey a2 = p_publicKey a1 \<and> localStorage a2 = localStorage a1
       \<and> effects a2 = effects a1 \<and> connect_keys (events a2) = connect_keys (events a1)
       \<and> p_disconnected a2 \<and> \<not> p_connecting a2 \<and> p_wallet a2 = None \<and> \<not> connected a2
       \<and> (p_wallet a \<noteq> None \<longrightarrow> p_publicKey a2 = None)
       \<and> (\<forall>publicKey. new_PublicKey env pk = Inr publicKey \<longrightarrow>
             connect_resume (Fulfilled (pk, so)) k env a1 = (ConnectDone (Resolved None), a1)))"
proof -
  let ?b1 = "snd (disconnect_begin env1 a)" and ?b2 = "snd (disconnect r env1 a)"
  have general: "p_disconnected b \<and> new_PublicKey env pk = Inr publicKey \<longrightarrow>
      connect_resume (Fulfilled (pk, so)) k env b =
        (ConnectDone (Resolved None), b\<lparr>p_connecting := False\<rparr>)"
    by (simp add: connect_resume_def)
  have b1: "p_disconnected ?b1" "p_wallet ?b1 = None" "\<not> p_connecting ?b1"
    by (simp_all add: disconnect_begin_fields)
  have b2: "p_disconnected ?b2" "p_wallet ?b2 = None" "\<not> p_connecting ?b2"
    by (simp_all add: disconnect_fields)
  note r1 = connect_resume_after_disconnect [OF b1, where pk = pk and so = so and k = k and env = env]
  note r2 = connect_resume_after_disconnect [OF b2, where pk = pk and so = so and k = k and env = env]
  have first: "let a1 = ?b1; a2 = snd (connect_resume (Fulfilled (pk, so)) k env a1)
    in p_publicKey a2 = p_publicKey a1 \<and> localStorage a2 = localStorage a1
     \<and> effects a2 = effects a1 \<and> connect_keys (events a2) = connect_keys (events a1)
     \<and> p_disconnected a2 \<and> \<not> p_connecting a2 \<and> p_wallet a2 = None \<and> \<not> connected a2
     \<and> (p_wallet a \<noteq> None \<longrightarrow> p_publicKey a2 = None)
     \<and> (\<forall>publicKey. new_PublicKey env pk = Inr publicKey \<longrightarrow>
           connect_resume (Fulfilled (pk, so)) k env a1 = (ConnectDone (Resolved None), a1))"
    unfolding Let_def
    using r1 by (simp add: connected_no_wallet disconnect_begin_fields)
  have second: "let a1 = ?b2; a2 = snd (connect_resume (Fulfilled (pk, so)) k env a1)
    in p_publicKey a2 = p_publicKey a1 \<and> localStorage a2 = localStorage a1
     \<and> effects a2 = effects a1 \<and> connect_keys (events a2) = connect_keys (events a1)
     \<and> p_disconnected a2 \<and> \<not> p_connecting a2 \<and> p_wallet a2 = None \<and> \<not> connected a2
     \<and> (p_wallet a \<noteq> None \<longrightarrow> p_publicKey a2 = None)
     \<and> (\<forall>publicKey. new_PublicKey env pk = Inr publicKey \<longrightarrow>
           connect_resume (Fulfilled (pk, so)) k env a1 = (ConnectDone (Resolved None), a1))"
    unfolding Let_def
    using r2 by (simp add: connected_no_wallet disconnect_fields)
  from general b1(1) b2(1) first second show ?thesis by blast
qed

lemma torn_down_eq:
  "torn_down =
      idle\<lparr>p_disconnected := True, next_wallet := 1, events := [Disconnect],
        effects := [Channel 0 Construct, Channel 0 (Init demo_options), Channel 0 Off_accountChanged,
        Channel 0 ClearElements, RemovePreviousWindowRef]\<rparr>"
  by (simp add: torn_down_def disconnect_begin_def disconnect_finish_def pending_eq idle_eq
      desktop_fields perform_def emit_def Let_def)

lemma torn_down_begin:
  "disconnect_begin desktop pending = (DisconnectDone (Resolved ()), torn_down)"
  unfolding torn_down_eq
  by (simp add: disconnect_begin_def disconnect_finish_def pending_eq idle_eq
      desktop_fields perform_def emit_def Let_def)

theorem stale_handshake_discarded_witness:
  "connect_begin (request_args ConnectCall) desktop idle =
     (AwaitInit \<lparr> pc_wallet = 0, pc_previouslyConnectedPublicKey = None \<rparr>, pending)
   \<and> p_wallet pending \<noteq> None
   \<and> new_PublicKey desktop ADDR_A = Inr ADDR_A
   \<and> connect_resume (Fulfilled (ADDR_A, None))
        \<lparr> pc_wallet = 0, pc_previouslyConnectedPublicKey = None \<rparr> desktop
        (snd (disconnect_begin desktop pending))
      = (ConnectDone (Resolved None), snd (disconnect_begin desktop pending))
   \<and> p_publicKey (snd (connect_resume (Fulfilled (ADDR_A, None))
        \<lparr> pc_wallet = 0, pc_previouslyConnectedPublicKey = None \<rparr> desktop
        (snd (disconnect_begin desktop pending)))) = None
   \<and> localStorage (snd (disconnect_begin desktop pending)) ''hyperLink_pk_connected'' = None
   \<and> events (snd (disconnect_begin desktop pending)) = [Disconnect]
   \<and> effects (snd (disconnect_begin desktop pending)) =
       [Channel 0 Construct, Channel 0 (Init demo_options), Channel 0 Off_accountChanged,
        Channel 0 ClearElements, RemovePreviousWindowRef]
   \<and> p_disconnected (snd (signMessage_begin [104, 105] torn_down))
   \<and> connect_resume (Fulfilled (ADDR_A, None))
        \<lparr> pc_wallet = 0, pc_previouslyConnectedPublicKey = None \<rparr> desktop
        (snd (signMessage_begin [104, 105] torn_down))
      = (ConnectDone (Resolved None),
         (snd (signMessage_begin [104, 105] torn_down))\<lparr>p_connecting := False\<rparr>)"
proof -
  let ?k = "\<lparr> pc_wallet = 0, pc_previouslyConnectedPublicKey = None \<rparr>"
  let ?later = "snd (signMessage_begin [104, 105] torn_down)"
  have b: "connect_begin (request_args ConnectCall) desktop idle = (AwaitInit ?k, pending)"
    unfolding pending_eq by (rule idle_connect)
  have w: "p_wallet pending \<noteq> None" by (simp add: pending_eq)
  have pk: "new_PublicKey desktop ADDR_A = Inr ADDR_A" by (simp add: desktop_fields web3_keys)
  have d: "snd (disconnect_begin desktop pending) = torn_down" by (simp add: torn_down_def)
  have fl: "p_disconnected ?later"
    by (simp add: disconnected_flag_kept torn_down_eq)
  note t = stale_handshake_discarded [where a = pending and ?env1.0 = desktop and env = desktop
      and pk = ADDR_A and so = None and k = ?k and r = "Fulfilled ()" and b = ?later
      and publicKey = ADDR_A]
  from t [unfolded Let_def] pk
  have r: "connect_resume (Fulfilled (ADDR_A, None)) ?k desktop
        (snd (disconnect_begin desktop pending))
      = (ConnectDone (Resolved None), snd (disconnect_begin desktop pending))"
    by blast
  from t [unfolded Let_def] w
  have p: "p_publicKey (snd (connect_resume (Fulfilled (ADDR_A, None)) ?k desktop
        (snd (disconnect_begin desktop pending)))) = None"
    by blast
  from t [unfolded Let_def] pk fl
  have g: "connect_resume (Fulfilled (ADDR_A, None)) ?k desktop ?later
      = (ConnectDone (Resolved None), ?later\<lparr>p_connecting := False\<rparr>)"
    by blast
  have rest: "localStorage (snd (disconnect_begin desktop pending)) ''hyperLink_pk_connected'' = None
   \<and> events (snd (disconnect_begin desktop pending)) = [Disconnect]
   \<and> effects (snd (disconnect_begin desktop pending)) =
       [Channel 0 Construct, Channel 0 (Init demo_options), Channel 0 Off_accountChanged,
        Channel 0 ClearElements, RemovePreviousWindowRef]"
    unfolding d torn_down_eq by (simp add: idle_eq)
  from b w pk r p rest fl g show ?thesis by blast
qed

lemma reconnecting_begin:
  "connect_begin (request_args ConnectCall) desktop torn_down =
     (AwaitInit \<lparr> pc_wallet = 1, pc_previouslyConnectedPublicKey = None \<rparr>,
      torn_down\<lparr>p_disconnected := False, p_connecting := True, p_wallet := Some 1,
        next_wallet := 2,
        effects := [Channel 0 Construct, Channel 0 (Init demo_options), Channel 0 Off_accountChanged,
          Channel 0 ClearElements, RemovePreviousWindowRef, Channel 1 Construct,
          Channel 1 (Init demo_options)]\<rparr>)"
  by (simp add: connect_begin_def desktop_class desktop_fields connected_def torn_down_eq idle_eq
      Let_def truthy_string_def readyState_def installedToWalletReadyState_def perform_def
      demo_options_def)

lemma reconnecting_eq:
  "reconnecting =
      torn_down\<lparr>p_disconnected := False, p_connecting := True, p_wallet := Some 1,
        next_wallet := 2,
        effects := [Channel 0 Construct, Channel 0 (Init demo_options), Channel 0 Off_accountChanged,
          Channel 0 ClearElements, RemovePreviousWindowRef, Channel 1 Construct,
          Channel 1 (Init demo_options)]\<rparr>"
  unfolding reconnecting_def reconnecting_begin by simp

text \<open>
  C4 as stated fails when a second \<^verbatim>\<open>connect()\<close> follows the \<^verbatim>\<open>disconnect()\<close> before
  the first handshake is fulfilled: \<^verbatim>\<open>disconnect()\<close> has cleared the connecting flag,
  so the second call passes the guard and clears \<^verbatim>\<open>_disconnected\<close>; the continuation
  of the first handshake then sets the public key, persists the account, subscribes on
  the first channel and emits \<open>Connect\<close>.
\<close>

theorem stale_handshake_accepted_counterexample:
  "connect_begin (request_args ConnectCall) desktop idle =
     (AwaitInit \<lparr> pc_wallet = 0, pc_previouslyConnectedPublicKey = None \<rparr>, pending)
   \<and> disconnect_begin desktop pending = (DisconnectDone (Resolved ()), torn_down)
   \<and> connect_begin (request_args ConnectCall) desktop torn_down =
       (AwaitInit \<lparr> pc_wallet = 1, pc_previouslyConnectedPublicKey = None \<rparr>, reconnecting)
   \<and> fst (connect_resume (Fulfilled (ADDR_A, None))
            \<lparr> pc_wallet = 0, pc_previouslyConnectedPublicKey = None \<rparr> desktop reconnecting)
       = ConnectDone (Resolved (Some (ConnectOutput None)))
   \<and> p_publicKey (snd (connect_resume (Fulfilled (ADDR_A, None))
            \<lparr> pc_wallet = 0, pc_previouslyConnectedPublicKey = None \<rparr> desktop reconnecting))
       = Some ADDR_A
   \<and> localStorage (snd (connect_resume (Fulfilled (ADDR_A, None))
            \<lparr> pc_wallet = 0, pc_previouslyConnectedPublicKey = None \<rparr> desktop reconnecting))
         ''hyperLink_pk_connected''
       = Some ADDR_A
   \<and> events (snd (connect_resume (Fulfilled (ADDR_A, None))
            \<lparr> pc_wallet = 0, pc_previouslyConnectedPublicKey = None \<rparr> desktop reconnecting))
       = [Disconnect, Connect ADDR_A]
   \<and> effects (snd (connect_resume (Fulfilled (ADDR_A, None))
            \<lparr> pc_wallet = 0, pc_previouslyConnectedPublicKey = None \<rparr> desktop reconnecting))
       = [Channel 0 Construct, Channel 0 (Init demo_options), Channel 0 Off_accountChanged,
          Channel 0 ClearElements, RemovePreviousWindowRef, Channel 1 Construct,
          Channel 1 (Init demo_options), Channel 0 On_accountChanged]"
proof -
  let ?k = "\<lparr> pc_wallet = 0, pc_previouslyConnectedPublicKey = None \<rparr>"
  have a: "connect_begin (request_args ConnectCall) desktop idle = (AwaitInit ?k, pending)"
    unfolding pending_eq by (rule idle_connect)
  have c: "connect_begin (request_args ConnectCall) desktop torn_down =
       (AwaitInit \<lparr> pc_wallet = 1, pc_previouslyConnectedPublicKey = None \<rparr>, reconnecting)"
    unfolding reconnecting_eq by (rule reconnecting_begin)
  have r: "connect_resume (Fulfilled (ADDR_A, None)) ?k desktop reconnecting =
      (ConnectDone (Resolved (Some (ConnectOutput None))),
       reconnecting\<lparr>p_connecting := False, p_publicKey := Some ADDR_A,
         localStorage := [''hyperLink_pk_connected'' \<mapsto> ADDR_A],
         events := [Disconnect, Connect ADDR_A],
         effects := [Channel 0 Construct, Channel 0 (Init demo_options),
           Channel 0 Off_accountChanged, Channel 0 ClearElements, RemovePreviousWindowRef,
           Channel 1 Construct, Channel 1 (Init demo_options), Channel 0 On_accountChanged]\<rparr>)"
    by (simp add: connect_resume_def reconnecting_eq torn_down_eq idle_eq desktop_fields web3_keys
        truthy_string_def removeQueryParam_def Let_def perform_def emit_def)
  show ?thesis
    unfolding r using a c torn_down_begin by simp
qed

lemma connect_failed_not_await [simp]:
  "connect_failed err a \<noteq> (AwaitInit k, a1)"
  by (simp add: connect_failed_def)




section \<open>Properties of signing, sending and signIn\<close>

text \<open>
  C6. With no channel, or with \<^verbatim>\<open>connected\<close> false, each of \<^verbatim>\<open>signTransaction\<close>,
  \<^verbatim>\<open>signAllTransactions\<close>, \<^verbatim>\<open>signMessage\<close> and \<^verbatim>\<open>sendTransaction\<close> rejects at once
  with \<open>WalletNotConnectedError\<close>; the only change of state is the \<^verbatim>\<open>error\<close> event
  carrying that error, so no call on a channel has been made.
\<close>

theorem not_connected_rejects:
  assumes "p_wallet a = None \<or> \<not> connected a"
  shows "signTransaction_begin transaction a =
           (Done (Rejected (WalletNotConnectedError None)),
            a\<lparr>events := events a @ [ErrorEvent (WalletNotConnectedError None)]\<rparr>)
       \<and> signAllTransactions_begin transactions a =
           (Done (Rejected (WalletNotConnectedError None)),
            a\<lparr>events := events a @ [ErrorEvent (WalletNotConnectedError None)]\<rparr>)
       \<and> signMessage_begin message a =
           (Done (Rejected (WalletNotConnectedError None)),
            a\<lparr>events := events a @ [ErrorEvent (WalletNotConnectedError None)]\<rparr>)
       \<and> sendTransaction_begin transaction env a =
           (Done (Rejected (WalletNotConnectedError None)),
            a\<lparr>events := events a @ [ErrorEvent (WalletNotConnectedError None)]\<rparr>)"
  using assms
  by (auto simp: signTransaction_begin_def signAllTransactions_begin_def signMessage_begin_def
        sendTransaction_begin_def raise_def emit_def connected_def split: option.splits)

theorem not_connected_rejects_witness:
  "(p_wallet idle = None \<or> \<not> connected idle)
   \<and> signTransaction_begin (Transaction [1, 2, 3]) idle =
       (Done (Rejected (WalletNotConnectedError None)),
        idle\<lparr>events := events idle @ [ErrorEvent (WalletNotConnectedError None)]\<rparr>)
   \<and> signAllTransactions_begin [Transaction [1], VersionedTransaction [2]] idle =
       (Done (Rejected (WalletNotConnectedError None)),
        idle\<lparr>events := events idle @ [ErrorEvent (WalletNotConnectedError None)]\<rparr>)
   \<and> signMessage_begin [104, 105] idle =
       (Done (Rejected (WalletNotConnectedError None)),
        idle\<lparr>events := events idle @ [ErrorEvent (WalletNotConnectedError None)]\<rparr>)
   \<and> sendTransaction_begin (Transaction [1, 2, 3]) desktop idle =
       (Done (Rejected (WalletNotConnectedError None)),
        idle\<lparr>events := events idle @ [ErrorEvent (WalletNotConnectedError None)]\<rparr>)"
proof -
  have h: "p_wallet idle = None \<or> \<not> connected idle" by (simp add: idle_eq)
  from not_connected_rejects [OF h, of "Transaction [1, 2, 3]"
      "[Transaction [1], VersionedTransaction [2]]" "[104, 105]" desktop] h
  show ?thesis by blast
qed

lemma removeQueryParam_filter:
  "removeQueryParam key a = a\<lparr>urlParams := filter (\<lambda>x. x \<noteq> key) (urlParams a)\<rparr>"
proof (cases "key \<in> set (urlParams a)")
  case True
  then show ?thesis by (simp add: removeQueryParam_def)
next
  case False
  then have "filter (\<lambda>x. x \<noteq> key) (urlParams a) = urlParams a"
    by (auto simp: filter_id_conv)
  with False show ?thesis by (simp add: removeQueryParam_def)
qed

lemma connect_begin_starts:
  assumes "\<not> connected a" "\<not> p_connecting a" "\<not> isInApp env"
    "hasWindow env" "hasDocument env" "getItem_throws env = None" "new_HyperLinkEmbed env = None"
  shows "connect_begin \<lparr> forceNoDirectConnect = None, arg_siwsInput = input,
                          arg_autoConnect = None \<rparr> env a =
     (AwaitInit \<lparr> pc_wallet = next_wallet a,
                  pc_previouslyConnectedPublicKey = localStorage a ''hyperLink_pk_connected'' \<rparr>,
      a\<lparr>p_disconnected := False, p_connecting := True, p_wallet := Some (next_wallet a),
        next_wallet := Suc (next_wallet a),
        effects := effects a @
          [Channel (next_wallet a) Construct,
           Channel (next_wallet a)
             (Init \<lparr> directConnect =
                        (if truthy_string (localStorage a ''hyperLink_pk_connected'') \<or>
                            p_forceIframe a
                         then False else p_directConnect a),
                      autoConnect =
                        (truthy_string (localStorage a ''hyperLink_pk_connected'') \<or>
                         p_forceIframe a),
                      siwsInput = input,
                      forceClickToContinue = p_forceIframe a,
                      init_theme = p_theme a,
                      init_hideDraggableWidget = p_hideDraggableWidget a,
                      init_hideWalletOnboard = p_hideWalletOnboard a \<rparr>)]\<rparr>)"
  using assms
  by (simp add: connect_begin_def Let_def readyState_def installedToWalletReadyState_def
      perform_def)

lemma connect_resume_success:
  assumes "new_PublicKey env pk = Inr publicKey" "\<not> p_disconnected b" "setItem_throws env = None"
    "\<not> truthy_string (pc_previouslyConnectedPublicKey k) \<or>
     pc_previouslyConnectedPublicKey k = Some (toBase58 env publicKey)"
  shows "connect_resume (Fulfilled (pk, so)) k env b =
     (ConnectDone (Resolved (Some (ConnectOutput so))),
      b\<lparr>p_connecting := False, p_publicKey := Some publicKey,
        localStorage := (localStorage b)(''hyperLink_pk_connected'' \<mapsto> toBase58 env publicKey),
        urlParams := filter (\<lambda>x. x \<notin> {''hyperLinkAutoConnect'', ''hyperLinkAutoConnectPublicKey'',
                                        ''promptHyperLinkAutoConnect''}) (urlParams b),
        events := events b @ [Connect publicKey],
        effects := effects b @ [Channel (pc_wallet k) On_accountChanged]\<rparr>)"
proof -
  have f: "filter (\<lambda>x. x \<noteq> ''promptHyperLinkAutoConnect'')
             (filter (\<lambda>x. x \<noteq> ''hyperLinkAutoConnectPublicKey'')
               (filter (\<lambda>x. x \<noteq> ''hyperLinkAutoConnect'') (urlParams b)))
         = filter (\<lambda>x. x \<notin> {''hyperLinkAutoConnect'', ''hyperLinkAutoConnectPublicKey'',
                                ''promptHyperLinkAutoConnect''}) (urlParams b)"
    by (auto intro: filter_cong)
  show ?thesis
    using assms
    by (auto simp: connect_resume_def Let_def removeQueryParam_filter perform_def emit_def f)
qed

text \<open>
  C8 (as amended). First part: the adapter is neither connected nor connecting, the
  page is a browser page outside an in-app browser, storage can be read and the
  channel can be constructed. Then \<^verbatim>\<open>signIn(input)\<close> clears the disconnected flag,
  sets the connecting flag, constructs a channel, calls its \<^verbatim>\<open>init\<close> with \<open>input\<close> as
  \<^verbatim>\<open>siwsInput\<close> and waits; nothing else changes.
  Second part: that handshake is fulfilled with a valid account in a state \<open>b\<close> not
  marked disconnected, storage can be written, and the account persisted when the
  handshake began was none or the one returned. Then the connect is completed (the
  transient query parameters stripped, the handler subscribed on the channel, the
  public key set, the account persisted, \<open>Connect\<close> emitted, the connecting flag
  cleared, nothing else changed) and \<^verbatim>\<open>signIn\<close> resolves with the sign-in output \<open>so\<close> of
  the handshake; if the handshake returned none, the connect is completed all the same
  and \<^verbatim>\<open>signIn\<close> emits and rejects with the error \<^verbatim>\<open>No Solana Sign In Output\<close>.
  Third part: the adapter is connected and holds a public key, and the input is not
  a function that throws. Then \<^verbatim>\<open>signIn\<close> makes exactly one call, \<^verbatim>\<open>wallet.signIn\<close> on
  the channel it holds, changes nothing else, and resolves with what that call is
  fulfilled with.
\<close>

theorem signIn_paths:
  "(\<not> connected a \<and> \<not> p_connecting a \<and> \<not> isInApp env \<and> hasWindow env \<and> hasDocument env \<and>
    getItem_throws env = None \<and> new_HyperLinkEmbed env = None
    \<longrightarrow> signIn_begin (Some input) env a =
         (SignInAwaitInit
            \<lparr> pc_wallet = next_wallet a,
              pc_previouslyConnectedPublicKey = localStorage a ''hyperLink_pk_connected'' \<rparr>,
          a\<lparr>p_disconnected := False, p_connecting := True, p_wallet := Some (next_wallet a),
            next_wallet := Suc (next_wallet a),
            effects := effects a @
              [Channel (next_wallet a) Construct,
               Channel (next_wallet a)
                 (Init \<lparr> directConnect =
                            (if truthy_string (localStorage a ''hyperLink_pk_connected'') \<or>
                                p_forceIframe a
                             then False else p_directConnect a),
                          autoConnect =
                            (truthy_string (localStorage a ''hyperLink_pk_connected'') \<or>
                             p_forceIframe a),
                          siwsInput = Some input,
                          forceClickToContinue = p_forceIframe a,
                          init_theme = p_theme a,
                          init_hideDraggableWidget = p_hideDraggableWidget a,
                          init_hideWalletOnboard = p_hideWalletOnboard a \<rparr>)]\<rparr>))
   \<and> (new_PublicKey env pk = Inr publicKey \<and> \<not> p_disconnected b \<and> setItem_throws env = None \<and>
      (\<not> truthy_string (pc_previouslyConnectedPublicKey k) \<or>
       pc_previouslyConnectedPublicKey k = Some (toBase58 env publicKey))
      \<longrightarrow> (let b' = b\<lparr>p_connecting := False, p_publicKey := Some publicKey,
                      localStorage :=
                        (localStorage b)(''hyperLink_pk_connected'' \<mapsto> toBase58 env publicKey),
                      urlParams :=
                        filter (\<lambda>x. x \<notin> {''hyperLinkAutoConnect'',
                                           ''hyperLinkAutoConnectPublicKey'',
                                           ''promptHyperLinkAutoConnect''}) (urlParams b),
                      events := events b @ [Connect publicKey],
                      effects := effects b @ [Channel (pc_wallet k) On_accountChanged]\<rparr>
           in signIn_resume_init (Fulfilled (pk, Some so)) k (Some input) env b =
                (SignInDone (Resolved so), b')
            \<and> signIn_resume_init (Fulfilled (pk, None)) k (Some input) env b =
                (SignInDone (Rejected (Error ''No Solana Sign In Output'')),
                 b'\<lparr>events := events b @
                      [Connect publicKey, ErrorEvent (Error ''No Solana Sign In Output'')]\<rparr>)))
   \<and> (connected a \<and> p_wallet a = Some w \<and> p_publicKey a = Some publicKey' \<and>
      resolve_siwsInput input' = Inr payload
      \<longrightarrow> signIn_begin input' env a =
            (SignInAwaitChannel w, a\<lparr>effects := effects a @ [Channel w (Call_signIn payload)]\<rparr>)
        \<and> signIn_end (Fulfilled so) c = (SignInDone (Resolved so), c))"
proof (intro conjI impI)
  assume h: "\<not> connected a \<and> \<not> p_connecting a \<and> \<not> isInApp env \<and> hasWindow env \<and> hasDocument env \<and>
    getItem_throws env = None \<and> new_HyperLinkEmbed env = None"
  then have "\<not> connected a" "\<not> p_connecting a" "\<not> isInApp env" "hasWindow env" "hasDocument env"
    "getItem_throws env = None" "new_HyperLinkEmbed env = None"
    by simp_all
  from connect_begin_starts [OF this, of "Some input"] h
  show "signIn_begin (Some input) env a =
         (SignInAwaitInit
            \<lparr> pc_wallet = next_wallet a,
              pc_previouslyConnectedPublicKey = localStorage a ''hyperLink_pk_connected'' \<rparr>,
          a\<lparr>p_disconnected := False, p_connecting := True, p_wallet := Some (next_wallet a),
            next_wallet := Suc (next_wallet a),
            effects := effects a @
              [Channel (next_wallet a) Construct,
               Channel (next_wallet a)
                 (Init \<lparr> directConnect =
                            (if truthy_string (localStorage a ''hyperLink_pk_connected'') \<or>
                                p_forceIframe a
                             then False else p_directConnect a),
                          autoConnect =
                            (truthy_string (localStorage a ''hyperLink_pk_connected'') \<or>
                             p_forceIframe a),
                          siwsInput = Some input,
                          forceClickToContinue = p_forceIframe a,
                          init_theme = p_theme a,
                          init_hideDraggableWidget = p_hideDraggableWidget a,
                          init_hideWalletOnboard = p_hideWalletOnboard a \<rparr>)]\<rparr>)"
    by (simp add: signIn_begin_def signIn_after_connect_def)
next
  assume h: "new_PublicKey env pk = Inr publicKey \<and> \<not> p_disconnected b \<and> setItem_throws env = None \<and>
      (\<not> truthy_string (pc_previouslyConnectedPublicKey k) \<or>
       pc_previouslyConnectedPublicKey k = Some (toBase58 env publicKey))"
  then have hs: "new_PublicKey env pk = Inr publicKey" "\<not> p_disconnected b"
    "setItem_throws env = None"
    "\<not> truthy_string (pc_previouslyConnectedPublicKey k) \<or>
       pc_previouslyConnectedPublicKey k = Some (toBase58 env publicKey)"
    by simp_all
  show "let b' = b\<lparr>p_connecting := False, p_publicKey := Some publicKey,
                      localStorage :=
                        (localStorage b)(''hyperLink_pk_connected'' \<mapsto> toBase58 env publicKey),
                      urlParams :=
                        filter (\<lambda>x. x \<notin> {''hyperLinkAutoConnect'',
                                           ''hyperLinkAutoConnectPublicKey'',
                                           ''promptHyperLinkAutoConnect''}) (urlParams b),
                      events := events b @ [Connect publicKey],
                      effects := effects b @ [Channel (pc_wallet k) On_accountChanged]\<rparr>
           in signIn_resume_init (Fulfilled (pk, Some so)) k (Some input) env b =
                (SignInDone (Resolved so), b')
            \<and> signIn_resume_init (Fulfilled (pk, None)) k (Some input) env b =
                (SignInDone (Rejected (Error ''No Solana Sign In Output'')),
                 b'\<lparr>events := events b @
                      [Connect publicKey, ErrorEvent (Error ''No Solana Sign In Output'')]\<rparr>)"
    unfolding Let_def signIn_resume_init_def
      connect_resume_success [OF hs, of "Some so"] connect_resume_success [OF hs, of None]
    by (simp add: signIn_after_connect_def signIn_failed_def emit_def)
next
  assume h: "connected a \<and> p_wallet a = Some w \<and> p_publicKey a = Some publicKey' \<and>
      resolve_siwsInput input' = Inr payload"
  then show "signIn_begin input' env a =
            (SignInAwaitChannel w, a\<lparr>effects := effects a @ [Channel w (Call_signIn payload)]\<rparr>)"
    by (simp add: signIn_begin_def signIn_direct_def perform_def)
next
  show "signIn_end (Fulfilled so) c = (SignInDone (Resolved so), c)"
    by (simp add: signIn_end_def)
qed

lemma android_wv_class: "isInApp (page_env ua_android_wv)"
  by code_simp

lemma signing_in_eq:
  "signing_in = idle\<lparr>p_connecting := True, p_wallet := Some 0, next_wallet := 1,
       effects := [Channel 0 Construct,
                   Channel 0 (Init (demo_options\<lparr>siwsInput := Some (InputValue demo_payload)\<rparr>))]\<rparr>"
  by (simp add: signing_in_def signIn_begin_def signIn_after_connect_def connect_begin_def
      desktop_class desktop_fields connected_def idle_eq Let_def truthy_string_def readyState_def
      installedToWalletReadyState_def perform_def demo_options_def)

theorem signIn_paths_witness:
  "signIn_begin (Some (InputValue demo_payload)) desktop idle =
     (SignInAwaitInit \<lparr> pc_wallet = 0, pc_previouslyConnectedPublicKey = None \<rparr>,
      idle\<lparr>p_connecting := True, p_wallet := Some 0, next_wallet := 1,
        effects := [Channel 0 Construct,
                    Channel 0 (Init (demo_options\<lparr>siwsInput := Some (InputValue demo_payload)\<rparr>))]\<rparr>)
   \<and> signIn_resume_init (Fulfilled (ADDR_A, Some demo_proof))
        \<lparr> pc_wallet = 0, pc_previouslyConnectedPublicKey = None \<rparr>
        (Some (InputValue demo_payload)) desktop signing_in =
       (SignInDone (Resolved demo_proof),
        signing_in\<lparr>p_connecting := False, p_publicKey := Some ADDR_A,
          localStorage := [''hyperLink_pk_connected'' \<mapsto> ADDR_A],
          events := [Connect ADDR_A],
          effects := effects signing_in @ [Channel 0 On_accountChanged]\<rparr>)
   \<and> signIn_resume_init (Fulfilled (ADDR_A, None))
        \<lparr> pc_wallet = 0, pc_previouslyConnectedPublicKey = None \<rparr>
        (Some (InputValue demo_payload)) desktop signing_in =
       (SignInDone (Rejected (Error ''No Solana Sign In Output'')),
        signing_in\<lparr>p_connecting := False, p_publicKey := Some ADDR_A,
          localStorage := [''hyperLink_pk_connected'' \<mapsto> ADDR_A],
          events := [Connect ADDR_A, ErrorEvent (Error ''No Solana Sign In Output'')],
          effects := effects signing_in @ [Channel 0 On_accountChanged]\<rparr>)
   \<and> signIn_begin (Some (InputValue demo_payload)) desktop signed_in =
       (SignInAwaitChannel 0,
        signed_in\<lparr>effects := effects signed_in @ [Channel 0 (Call_signIn (Some demo_payload))]\<rparr>)
   \<and> signIn_end (Fulfilled demo_proof) signed_in = (SignInDone (Resolved demo_proof), signed_in)"
proof -
  note t = signIn_paths [unfolded Let_def]
  have h1: "\<not> connected idle \<and> \<not> p_connecting idle \<and> \<not> isInApp desktop \<and> hasWindow desktop \<and>
      hasDocument desktop \<and> getItem_throws desktop = None \<and> new_HyperLinkEmbed desktop = None"
    by (simp add: idle_eq connected_def desktop_class desktop_fields)
  have h2: "new_PublicKey desktop ADDR_A = Inr ADDR_A \<and> \<not> p_disconnected signing_in \<and>
      setItem_throws desktop = None \<and>
      (\<not> truthy_string (pc_previouslyConnectedPublicKey
            \<lparr> pc_wallet = 0, pc_previouslyConnectedPublicKey = None \<rparr>) \<or>
       pc_previouslyConnectedPublicKey \<lparr> pc_wallet = 0, pc_previouslyConnectedPublicKey = None \<rparr> =
         Some (toBase58 desktop ADDR_A))"
    by (simp add: desktop_fields web3_keys signing_in_eq idle_eq truthy_string_def)
  have h3: "connected signed_in \<and> p_wallet signed_in = Some 0 \<and>
      p_publicKey signed_in = Some ADDR_A \<and>
      resolve_siwsInput (Some (InputValue demo_payload)) = Inr (Some demo_payload)"
    by (simp add: signed_in_eq idle_eq connected_def resolve_siwsInput_def)
  from t [where input = "InputValue demo_payload", THEN conjunct1, THEN mp, OF h1]
  have a: "signIn_begin (Some (InputValue demo_payload)) desktop idle =
     (SignInAwaitInit \<lparr> pc_wallet = 0, pc_previouslyConnectedPublicKey = None \<rparr>,
      idle\<lparr>p_connecting := True, p_wallet := Some 0, next_wallet := 1,
        effects := [Channel 0 Construct,
                    Channel 0 (Init (demo_options\<lparr>siwsInput := Some (InputValue demo_payload)\<rparr>))]\<rparr>)"
    by (simp add: idle_eq truthy_string_def demo_options_def)
  from t [where so = demo_proof and input = "InputValue demo_payload",
      THEN conjunct2, THEN conjunct1, THEN mp, OF h2]
  have b: "signIn_resume_init (Fulfilled (ADDR_A, Some demo_proof))
        \<lparr> pc_wallet = 0, pc_previouslyConnectedPublicKey = None \<rparr>
        (Some (InputValue demo_payload)) desktop signing_in =
       (SignInDone (Resolved demo_proof),
        signing_in\<lparr>p_connecting := False, p_publicKey := Some ADDR_A,
          localStorage := [''hyperLink_pk_connected'' \<mapsto> ADDR_A],
          events := [Connect ADDR_A],
          effects := effects signing_in @ [Channel 0 On_accountChanged]\<rparr>)"
    and c: "signIn_resume_init (Fulfilled (ADDR_A, None))
        \<lparr> pc_wallet = 0, pc_previouslyConnectedPublicKey = None \<rparr>
        (Some (InputValue demo_payload)) desktop signing_in =
       (SignInDone (Rejected (Error ''No Solana Sign In Output'')),
        signing_in\<lparr>p_connecting := False, p_publicKey := Some ADDR_A,
          localStorage := [''hyperLink_pk_connected'' \<mapsto> ADDR_A],
          events := [Connect ADDR_A, ErrorEvent (Error ''No Solana Sign In Output'')],
          effects := effects signing_in @ [Channel 0 On_accountChanged]\<rparr>)"
    by (simp_all add: signing_in_eq idle_eq desktop_fields)
  from t [where env = desktop and so = demo_proof and c = signed_in,
      THEN conjunct2, THEN conjunct2, THEN mp, OF h3]
  have d: "signIn_begin (Some (InputValue demo_payload)) desktop signed_in =
       (SignInAwaitChannel 0,
        signed_in\<lparr>effects := effects signed_in @ [Channel 0 (Call_signIn (Some demo_payload))]\<rparr>)"
    and e: "signIn_end (Fulfilled demo_proof) signed_in = (SignInDone (Resolved demo_proof), signed_in)"
    by blast+
  from a b c d e show ?thesis by blast
qed

text \<open>
  C8 as stated (an adapter that is not connected performs a connect carrying the
  sign-in payload; a connected one calls \<^verbatim>\<open>wallet.signIn\<close> directly) fails outside the
  conditions above.
  While a connect is pending, \<^verbatim>\<open>signIn\<close> with a payload starts no handshake: the only
  \<^verbatim>\<open>init\<close> call made is the pending one, which carries no payload, and \<^verbatim>\<open>signIn\<close> emits and
  rejects with \<^verbatim>\<open>No Solana Sign In Output\<close>.
  When the channel reports a login before the handshake has set the public key, the
  adapter is connected, yet \<^verbatim>\<open>signIn\<close> makes no \<^verbatim>\<open>wallet.signIn\<close> call and rejects with
  \<^verbatim>\<open>WalletNotConnectedError\<close>.
  When the handshake returns an account other than the persisted one, together with a
  sign-in output, \<^verbatim>\<open>signIn\<close> rejects with \<^verbatim>\<open>No Solana Sign In Output\<close>.
  In an in-app browser \<^verbatim>\<open>signIn\<close> shows the dialog and rejects; no channel is constructed.
\<close>

theorem signIn_guarded_counterexample:
  "signIn_begin (Some (InputValue demo_payload)) desktop pending =
     (SignInDone (Rejected (Error ''No Solana Sign In Output'')),
      pending\<lparr>events := [ErrorEvent (Error ''No Solana Sign In Output'')]\<rparr>)
   \<and> effects pending = [Channel 0 Construct, Channel 0 (Init demo_options)]
   \<and> siwsInput demo_options = None
   \<and> connected early_login
   \<and> signIn_begin (Some (InputValue demo_payload)) desktop early_login =
       (SignInDone (Rejected (WalletNotConnectedError (Some ''no public key found''))),
        early_login\<lparr>events := [ErrorEvent (WalletNotConnectedError (Some ''no public key found''))]\<rparr>)
   \<and> fst (signIn_resume_init (Fulfilled (ADDR_B, Some demo_proof))
            \<lparr> pc_wallet = 0, pc_previouslyConnectedPublicKey = Some ADDR_A \<rparr>
            (Some (InputValue demo_payload)) desktop
            (snd (signIn_begin (Some (InputValue demo_payload)) desktop returning))) =
       SignInDone (Rejected (Error ''No Solana Sign In Output''))
   \<and> fst (signIn_begin (Some (InputValue demo_payload)) (page_env ua_android_wv) idle) =
       SignInDone (Rejected
         (RejectedWith ''The HyperLink Wallet is not supported in this browser.''))
   \<and> effects (snd (signIn_begin (Some (InputValue demo_payload)) (page_env ua_android_wv) idle)) =
       [ShowDialog]"
  by (simp add: signIn_begin_def signIn_after_connect_def signIn_failed_def signIn_direct_def
      connect_begin_def connect_resume_def connected_def pending_eq early_login_def returning_eq
      idle_eq demo_options_def desktop_fields desktop_class web3_keys truthy_string_def Let_def
      emit_def perform_def readyState_def installedToWalletReadyState_def removeQueryParam_def
      disconnect_begin_def disconnect_finish_def android_wv_class page_env_fields
      signIn_resume_init_def)

section \<open>Properties of the account-change handler\<close>

text \<open>
  C7. The adapter holds a public key whose own base58 text is a valid key (as every
  key of the library is), and the notification carries a string the \<^verbatim>\<open>PublicKey\<close>
  constructor rejects. Then the handler changes nothing but the list of events, to
  which it adds exactly one \<^verbatim>\<open>error\<close> event, a \<open>WalletPublicKeyError\<close>.
\<close>

theorem accountChanged_unparsable:
  assumes "p_publicKey a = Some publicKey"
    and "new_PublicKey env (toBase58 env publicKey) = Inr publicKey'"
    and "new_PublicKey env newPublicKeyString = Inl e"
  shows "accountChanged env newPublicKeyString a =
           a\<lparr>events := events a @ [ErrorEvent (WalletPublicKeyError e)]\<rparr>"
proof -
  have "toBase58 env publicKey \<noteq> newPublicKeyString"
  proof
    assume "toBase58 env publicKey = newPublicKeyString"
    with assms(2,3) show False by simp
  qed
  with assms(1,3) show ?thesis
    by (simp add: accountChanged_def emit_def)
qed

theorem accountChanged_unparsable_witness:
  "p_publicKey signed_in = Some ADDR_A
   \<and> new_PublicKey desktop ''not-a-key'' = Inl (Some ''Non-base58 character'')
   \<and> accountChanged desktop ''not-a-key'' signed_in =
       signed_in\<lparr>events := [Connect ADDR_A,
                             ErrorEvent (WalletPublicKeyError (Some ''Non-base58 character''))]\<rparr>"
proof -
  have h1: "p_publicKey signed_in = Some ADDR_A" by (simp add: signed_in_eq)
  have h2: "new_PublicKey desktop (toBase58 desktop ADDR_A) = Inr ADDR_A"
    by (simp add: desktop_fields web3_keys)
  have h3: "new_PublicKey desktop ''not-a-key'' = Inl (Some ''Non-base58 character'')"
    by (simp add: desktop_fields web3_keys)
  have ev: "events signed_in = [Connect ADDR_A]" by (simp add: signed_in_eq)
  from accountChanged_unparsable [OF h1 h2 h3] h1 h3 ev show ?thesis by simp
qed

text \<open>
  C10. A notification leaves the state untouched when the adapter holds no public key
  or holds the key with that very base58 address. When the address is another one and
  is a valid key, the handler replaces the public key and emits \<open>Connect\<close> with the new
  key, and changes nothing else; \<open>Connect\<close>, \<open>Disconnect\<close> and \<open>ErrorEvent\<close> are all the
  events there are. In every case storage is what it was.
\<close>

theorem accountChanged_valid:
  "(p_publicKey a = None \<longrightarrow> accountChanged env newPublicKeyString a = a)
   \<and> (\<forall>publicKey. p_publicKey a = Some publicKey \<and> toBase58 env publicKey = newPublicKeyString
        \<longrightarrow> accountChanged env newPublicKeyString a = a)
   \<and> (\<forall>publicKey newPublicKey.
         p_publicKey a = Some publicKey \<and> toBase58 env publicKey \<noteq> newPublicKeyString \<and>
         new_PublicKey env newPublicKeyString = Inr newPublicKey
        \<longrightarrow> accountChanged env newPublicKeyString a =
              a\<lparr>p_publicKey := Some newPublicKey, events := events a @ [Connect newPublicKey]\<rparr>)
   \<and> localStorage (accountChanged env newPublicKeyString a) = localStorage a"
proof (cases "p_publicKey a")
  case None
  then show ?thesis by (simp add: accountChanged_def)
next
  case (Some publicKey)
  show ?thesis
  proof (cases "toBase58 env publicKey = newPublicKeyString")
    case True
    with Some show ?thesis by (simp add: accountChanged_def)
  next
    case False
    show ?thesis
    proof (cases "new_PublicKey env newPublicKeyString")
      case (Inl e)
      with Some False show ?thesis by (simp add: accountChanged_def)
    next
      case (Inr newPublicKey)
      with Some False show ?thesis by (simp add: accountChanged_def emit_def)
    qed
  qed
qed

theorem accountChanged_valid_witness:
  "accountChanged desktop ADDR_B idle = idle
   \<and> accountChanged desktop ADDR_A signed_in = signed_in
   \<and> accountChanged desktop ADDR_B signed_in =
       signed_in\<lparr>p_publicKey := Some ADDR_B, events := [Connect ADDR_A, Connect ADDR_B]\<rparr>
   \<and> localStorage (accountChanged desktop ADDR_B signed_in) ''hyperLink_pk_connected'' = Some ADDR_A"
proof -
  have n: "p_publicKey idle = None" by (simp add: idle_eq)
  have s: "p_publicKey signed_in = Some ADDR_A" by (simp add: signed_in_eq)
  have same: "toBase58 desktop ADDR_A = ADDR_A" by (simp add: desktop_fields)
  have diff: "toBase58 desktop ADDR_A \<noteq> ADDR_B" by (simp add: desktop_fields web3_keys)
  have pk: "new_PublicKey desktop ADDR_B = Inr ADDR_B" by (simp add: desktop_fields web3_keys)
  have ev: "events signed_in = [Connect ADDR_A]" by (simp add: signed_in_eq)
  have st: "localStorage signed_in ''hyperLink_pk_connected'' = Some ADDR_A"
    by (simp add: signed_in_eq)
  from accountChanged_valid [of idle desktop ADDR_B] n
  have a: "accountChanged desktop ADDR_B idle = idle" by blast
  from accountChanged_valid [of signed_in desktop ADDR_A] s same
  have b: "accountChanged desktop ADDR_A signed_in = signed_in" by blast
  from accountChanged_valid [of signed_in desktop ADDR_B] s diff pk
  have c: "accountChanged desktop ADDR_B signed_in =
             signed_in\<lparr>p_publicKey := Some ADDR_B, events := events signed_in @ [Connect ADDR_B]\<rparr>"
    and d: "localStorage (accountChanged desktop ADDR_B signed_in) = localStorage signed_in"
    by blast+
  from a b c d ev st show ?thesis by simp
qed

section \<open>Properties of readyState\<close>

text \<open>
  C9. \<^verbatim>\<open>readyState\<close> depends only on whether there is a window and a document, on the
  three classifications of the user agent and on the three installed flags: without a
  window or a document it is \<open>Unsupported\<close>; otherwise it is \<open>Loadable\<close> in the known
  in-app wallet browser, and else \<open>Installed\<close> or \<open>Loadable\<close> as the flag of the platform
  (Android, iOS, desktop, in this order) is true or false. In particular a user agent
  that \<^verbatim>\<open>isMobileAndroid\<close> classifies as Android gives \<open>Loadable\<close> in a browser when
  \<^verbatim>\<open>installedOnAndroid\<close> is false, whatever the iOS flag.
\<close>

theorem readyState_classification:
  "readyState env a =
     (if \<not> (hasWindow env \<and> hasDocument env) then Unsupported
      else if isPhantomBrowser env then Loadable
      else if isMobileAndroid env then installedToWalletReadyState (p_installedOnAndroid a)
      else if isMobileiOS env then installedToWalletReadyState (p_installedOnIos a)
      else installedToWalletReadyState (p_installedOnDesktop a))
   \<and> installedToWalletReadyState True = Installed
   \<and> installedToWalletReadyState False = Loadable
   \<and> (hasWindow env \<and> hasDocument env \<and> isMobileAndroid env \<and> \<not> p_installedOnAndroid a
        \<longrightarrow> readyState env a = Loadable)"
proof (intro conjI impI)
  show eq: "readyState env a =
     (if \<not> (hasWindow env \<and> hasDocument env) then Unsupported
      else if isPhantomBrowser env then Loadable
      else if isMobileAndroid env then installedToWalletReadyState (p_installedOnAndroid a)
      else if isMobileiOS env then installedToWalletReadyState (p_installedOnIos a)
      else installedToWalletReadyState (p_installedOnDesktop a))"
  proof (cases "isPhantomBrowser env")
    case True
    then show ?thesis by (simp add: readyState_def installedToWalletReadyState_def)
  next
    case False
    then show ?thesis by (simp add: readyState_def)
  qed
  show "installedToWalletReadyState True = Installed"
    and "installedToWalletReadyState False = Loadable"
    by (simp_all add: installedToWalletReadyState_def)
  assume "hasWindow env \<and> hasDocument env \<and> isMobileAndroid env \<and> \<not> p_installedOnAndroid a"
  then show "readyState env a = Loadable"
    unfolding eq by (simp add: installedToWalletReadyState_def)
qed

theorem readyState_classification_witness:
  "isMobileAndroid (page_env ua_android)
   \<and> \<not> p_installedOnAndroid idle \<and> p_installedOnIos idle
   \<and> readyState (page_env ua_android) idle = Loadable
   \<and> readyState (page_env ua_android) (idle\<lparr>p_installedOnAndroid := True\<rparr>) = Installed
   \<and> readyState ((page_env ua_android)\<lparr>hasDocument := False\<rparr>) idle = Unsupported"
proof -
  have f: "\<not> p_installedOnAndroid idle" "p_installedOnIos idle" by (simp_all add: idle_eq)
  have b: "hasWindow (page_env ua_android)" "hasDocument (page_env ua_android)"
    by (simp_all add: page_env_fields)
  from readyState_classification [of "page_env ua_android" idle] android_class(1) f(1) b
  have l: "readyState (page_env ua_android) idle = Loadable" by blast
  from readyState_classification [of "page_env ua_android" "idle\<lparr>p_installedOnAndroid := True\<rparr>"]
    android_class b
  have i: "readyState (page_env ua_android) (idle\<lparr>p_installedOnAndroid := True\<rparr>) = Installed"
    by simp
  from readyState_classification [of "(page_env ua_android)\<lparr>hasDocument := False\<rparr>" idle]
  have u: "readyState ((page_env ua_android)\<lparr>hasDocument := False\<rparr>) idle = Unsupported"
    by simp
  from android_class(1) f l i u show ?thesis by simp
qed

end
